theory Spec2Isabelle
  imports Main
begin

section \<open>Data model (src/app/utils/contentful.ts, interfaces)\<close>

text \<open>
  Strings are \<open>string\<close>; an optional TypeScript field (\<open>f?: T\<close>) is a \<open>T option\<close>
  with \<open>None\<close> for \<open>undefined\<close>. A linked asset is the nested object
  \<open>{fields: {file: {url}, title}}\<close>; the code reads it only through the optional chain
  \<open>x?.fields?.file?.url\<close>, so it is flattened to one record whose \<open>url\<close> is \<open>None\<close>
  when any link of that chain is missing.
\<close>

type_synonym Document = string

record asset =
  url :: "string option"
  asset_title :: "string option"

record BlogPost_fields =
  post_title :: string
  post_slug :: string
  post_content :: Document
  post_excerpt :: string
  post_author :: string
  post_publishDate :: string
  post_coverImage :: asset

record Meeting_fields =
  meeting_title :: string
  meeting_date :: string
  meeting_description :: string
  meeting_image :: asset
  meetingLocation :: "string option"
  slides :: "asset option"
  slidesUrl :: "string option"
  recording :: "string option"
  resourcesUrl :: "string option"

record ParallaxBanner_fields =
  banner_title :: string
  banner_image :: asset
  banner_link :: "string option"

datatype member_type = CurrentMember | PastMember

record EboardMember_fields =
  member_name :: string
  member_position :: string
  member_description :: string
  linkedin :: string
  github :: "string option"
  member_year :: "string option"
  member_image :: asset
  memberType :: member_type

datatype hackathon_status = Ongoing | Upcoming | Past

record Hackathon_fields =
  hackathon_title :: string
  hackathon_slug :: "string option"
  hackathon_description :: string
  startDate :: "string option"
  endDate :: "string option"
  status :: "hackathon_status option"
  registrationLink :: "string option"
  details :: "Document option"
  hackathon_image :: asset

text \<open>
  The graphic's \<open>image\<close> field is \<open>graphic_image\<close> here (\<open>image\<close> is the image of a
  set under a function in HOL); \<open>graphic\<close> keeps its name.
\<close>

record LandingPageGraphic_fields =
  graphic_title :: string
  graphic_description :: "string option"
  graphic_image :: "asset option"
  graphic :: "asset option"

text \<open>
  An entry as the store returns it: \<open>sys.id\<close>, the attribute bag \<open>fields\<close> (here \<open>item_fields\<close>), and the
  top-level \<open>contentTypeId\<close>, which a raw record may or may not carry.
\<close>

record 'f entry =
  sys_id :: string
  contentTypeId :: "string option"
  item_fields :: 'f

type_synonym BlogPost = "BlogPost_fields entry"
type_synonym Meeting = "Meeting_fields entry"
type_synonym ParallaxBanner = "ParallaxBanner_fields entry"
type_synonym EboardMember = "EboardMember_fields entry"
type_synonym Hackathon = "Hackathon_fields entry"
type_synonym LandingPageGraphic = "LandingPageGraphic_fields entry"

section \<open>Errors, the environment and the remote client\<close>

text \<open>
  A thrown value: an \<open>Error\<close> with its message, or any other value with its \<open>String(v)\<close>
  rendering. A computation that may throw returns \<open>js_error + 'a\<close>, \<open>Inl\<close> for the throw.
\<close>

datatype js_error = Error string | Thrown string

definition error_message :: "js_error \<Rightarrow> string" where
  "error_message e = (case e of Error m \<Rightarrow> m | Thrown s \<Rightarrow> s)"

text \<open>\<open>try { body } catch (error) { handler }\<close>.\<close>

definition try_catch :: "js_error + 'a \<Rightarrow> (js_error \<Rightarrow> js_error + 'a) \<Rightarrow> js_error + 'a" where
  "try_catch body handler = (case body of Inl e \<Rightarrow> handler e | Inr v \<Rightarrow> Inr v)"

text \<open>\<open>await\<close> of a call that may reject, followed by the rest of the block.\<close>

definition await :: "js_error + 'a \<Rightarrow> ('a \<Rightarrow> js_error + 'b) \<Rightarrow> js_error + 'b" where
  "await p k = (case p of Inl e \<Rightarrow> Inl e | Inr v \<Rightarrow> k v)"

text \<open>The environment module: \<open>process.env\<close> before validation, \<open>env\<close> after.\<close>

record process_env =
  penv_REDIS_URL :: "string option"
  penv_CONTENTFUL_SPACE_ID :: "string option"
  penv_CONTENTFUL_ACCESS_TOKEN :: "string option"

record env =
  REDIS_URL :: string
  CONTENTFUL_SPACE_ID :: string
  CONTENTFUL_ACCESS_TOKEN :: string

fun join :: "string \<Rightarrow> string list \<Rightarrow> string" where
  "join sep [] = []"
| "join sep [x] = x"
| "join sep (x # y # ys) = x @ sep @ join sep (y # ys)"

text \<open>
  \<open>validateEnv\<close>: \<open>envSchema.parse\<close> requires each of the three variables to be a string
  (the empty string passes \<open>z.string()\<close>); a variable that is not set raises a
  \<open>ZodError\<close>, rethrown as an \<open>Error\<close> naming the missing variables. The message
  starts with a cross mark (U+274C), written here as its three UTF-8 bytes.
\<close>

definition cross_mark :: string where
  "cross_mark = [CHR 0xE2, CHR 0x9D, CHR 0x8C]"

definition missingVars :: "process_env \<Rightarrow> string list" where
  "missingVars p =
     (if penv_REDIS_URL p = None then [''REDIS_URL''] else []) @
     (if penv_CONTENTFUL_SPACE_ID p = None then [''CONTENTFUL_SPACE_ID''] else []) @
     (if penv_CONTENTFUL_ACCESS_TOKEN p = None then [''CONTENTFUL_ACCESS_TOKEN''] else [])"

definition validateEnv :: "process_env \<Rightarrow> js_error + env" where
  "validateEnv p =
     (case (penv_REDIS_URL p, penv_CONTENTFUL_SPACE_ID p, penv_CONTENTFUL_ACCESS_TOKEN p) of
        (Some r, Some s, Some t) \<Rightarrow>
          Inr \<lparr>REDIS_URL = r, CONTENTFUL_SPACE_ID = s, CONTENTFUL_ACCESS_TOKEN = t\<rparr>
      | _ \<Rightarrow>
          Inl (Error (cross_mark @ '' Invalid environment variables: '' @
                      join '', '' (missingVars p) @ ''. Please check your .env file'')))"

text \<open>
  The criteria of one \<open>getEntries\<close> call: the content type, the field filters (key and
  value, as written in the call), the sort keys and the result ceiling.
\<close>

record query =
  q_content_type :: string
  q_filters :: "(string \<times> string) list"
  q_order :: "string list"
  q_limit :: "nat option"

text \<open>
  The client's one operation, \<open>getEntries<T>(query)\<close>, at each entry type the module
  instantiates it with. It resolves with \<open>response.items\<close> or rejects.
\<close>

record client =
  getEntries_BlogPost :: "query \<Rightarrow> js_error + BlogPost list"
  getEntries_Meeting :: "query \<Rightarrow> js_error + Meeting list"
  getEntries_ParallaxBanner :: "query \<Rightarrow> js_error + ParallaxBanner list"
  getEntries_EboardMember :: "query \<Rightarrow> js_error + EboardMember list"
  getEntries_Hackathon :: "query \<Rightarrow> js_error + Hackathon list"
  getEntries_LandingPageGraphic :: "query \<Rightarrow> js_error + LandingPageGraphic list"

text \<open>The dummy client of the catch block: \<open>getEntries: async () => ({ items: [] })\<close>.\<close>

definition dummy_client :: client where
  "dummy_client =
     \<lparr>getEntries_BlogPost = (\<lambda>_. Inr []),
      getEntries_Meeting = (\<lambda>_. Inr []),
      getEntries_ParallaxBanner = (\<lambda>_. Inr []),
      getEntries_EboardMember = (\<lambda>_. Inr []),
      getEntries_Hackathon = (\<lambda>_. Inr []),
      getEntries_LandingPageGraphic = (\<lambda>_. Inr [])\<rparr>"

datatype log_entry = Log string | Warn string | ErrorLog string js_error

text \<open>JavaScript's \<open>!s\<close> on a string: only the empty string is falsy.\<close>

definition falsy :: "string \<Rightarrow> bool" where
  "falsy s = (s = [])"

definition missing_warning :: string where
  "missing_warning =
     ''Warning: Missing Contentful environment variables. Using fallback data where available.''"

text \<open>
  The module-level initialisation of \<open>client\<close> (contentful.ts, lines 184-218).
  \<open>createClient\<close> is the library's constructor, which may throw. The result is the
  installed client and what was written to the console, in order.
\<close>

definition init_client ::
  "env \<Rightarrow> (string \<Rightarrow> string \<Rightarrow> js_error + client) \<Rightarrow> client \<times> log_entry list" where
  "init_client e createClient =
     (let log1 = (if falsy (CONTENTFUL_SPACE_ID e) \<or> falsy (CONTENTFUL_ACCESS_TOKEN e)
                  then [Warn missing_warning] else []);
          spaceId = CONTENTFUL_SPACE_ID e;
          accessToken = CONTENTFUL_ACCESS_TOKEN e;
          body =
            (if falsy spaceId \<or> falsy accessToken
             then (Inl (Error ''Contentful credentials are missing''), log1 @ [Warn missing_warning])
             else (case createClient spaceId accessToken of
                     Inl err \<Rightarrow> (Inl err, log1)
                   | Inr c \<Rightarrow> (Inr c, log1 @ [Log ''Contentful client initialized successfully''])))
      in case fst body of
           Inr c \<Rightarrow> (c, snd body)
         | Inl err \<Rightarrow>
             (dummy_client, snd body @ [ErrorLog ''Error initializing Contentful client:'' err]))"

text \<open>
  What a resolver reads from its module: the imported \<open>env\<close> and the module's \<open>client\<close>.
\<close>

record ctx =
  ctx_env :: env
  ctx_client :: client

text \<open>
  Loading the modules: \<open>export const env = validateEnv()\<close> runs first (the import is
  outside every \<open>try\<close>), then the client is initialised.
\<close>

definition load_module ::
  "process_env \<Rightarrow> (string \<Rightarrow> string \<Rightarrow> js_error + client) \<Rightarrow> js_error + (ctx \<times> log_entry list)" where
  "load_module p createClient =
     await (validateEnv p) (\<lambda>e.
       let (c, lg) = init_client e createClient
       in Inr (\<lparr>ctx_env = e, ctx_client = c\<rparr>, lg))"

section \<open>Query resolvers (src/app/utils/contentful.ts, lines 220-553)\<close>

text \<open>
  \<open>{...item, contentTypeId: t}\<close>: a copy of the item whose \<open>contentTypeId\<close> is \<open>t\<close>,
  whatever the item carried. The resolvers' console output is not part of their result
  and is left out; \<open>console.log\<close> and \<open>console.error\<close> do not throw.
\<close>

definition stamp :: "string \<Rightarrow> 'f entry \<Rightarrow> 'f entry" where
  "stamp t item = item\<lparr>contentTypeId := Some t\<rparr>"

definition getAllPosts_query :: query where
  "getAllPosts_query =
     \<lparr>q_content_type = ''blogPost'', q_filters = [], q_order = [''-sys.createdAt''],
      q_limit = None\<rparr>"

definition getAllPosts :: "ctx \<Rightarrow> js_error + BlogPost list" where
  "getAllPosts c =
     try_catch
       (await (getEntries_BlogPost (ctx_client c) getAllPosts_query) (\<lambda>items.
          Inr (map (stamp ''blogPost'') items)))
       (\<lambda>error. Inr [])"

definition getPostBySlug_query :: "string \<Rightarrow> query" where
  "getPostBySlug_query slug =
     \<lparr>q_content_type = ''blogPost'', q_filters = [(''fields.slug[match]'', slug)],
      q_order = [], q_limit = Some 1\<rparr>"

definition getPostBySlug :: "ctx \<Rightarrow> string \<Rightarrow> js_error + BlogPost option" where
  "getPostBySlug c slug =
     try_catch
       (await (getEntries_BlogPost (ctx_client c) (getPostBySlug_query slug)) (\<lambda>items.
          case items of
            [] \<Rightarrow> Inr None
          | item # _ \<Rightarrow> Inr (Some (stamp ''blogPost'' item))))
       (\<lambda>error. Inr None)"

definition getAllMeetings_query :: query where
  "getAllMeetings_query =
     \<lparr>q_content_type = ''meeting'', q_filters = [], q_order = [''-fields.date''],
      q_limit = None\<rparr>"

text \<open>
  \<open>getAllMeetings\<close> sorts the fetched items again with the comparator
  \<open>new Date(b.fields.date).getTime() - new Date(a.fields.date).getTime()\<close>: descending
  by time, and stable (as \<open>Array.prototype.sort\<close> is). \<open>getTime\<close> is the runtime's
  \<open>new Date(s).getTime()\<close>, taken as a parameter; dates are assumed to parse (no NaN).
\<close>

definition getAllMeetings :: "(string \<Rightarrow> int) \<Rightarrow> ctx \<Rightarrow> js_error + Meeting list" where
  "getAllMeetings getTime c =
     try_catch
       (await (getEntries_Meeting (ctx_client c) getAllMeetings_query) (\<lambda>items.
          let sortedMeetings = sort_key (\<lambda>m. - getTime (meeting_date (item_fields m))) items
          in Inr (map (stamp ''meeting'') sortedMeetings)))
       (\<lambda>error. Inr [])"

definition getUpcomingMeetings_query :: query where
  "getUpcomingMeetings_query =
     \<lparr>q_content_type = ''upcomingMeeting'', q_filters = [], q_order = [''-sys.createdAt''],
      q_limit = None\<rparr>"

definition getUpcomingMeetings :: "ctx \<Rightarrow> js_error + Meeting list" where
  "getUpcomingMeetings c =
     try_catch
       (await (getEntries_Meeting (ctx_client c) getUpcomingMeetings_query) (\<lambda>items.
          Inr (map (stamp ''upcomingMeeting'') items)))
       (\<lambda>error. Inr [])"

definition getParallaxBanners_query :: query where
  "getParallaxBanners_query =
     \<lparr>q_content_type = ''parallaxBanner'', q_filters = [], q_order = [''-sys.createdAt''],
      q_limit = None\<rparr>"

definition getParallaxBanners :: "ctx \<Rightarrow> js_error + ParallaxBanner list" where
  "getParallaxBanners c =
     try_catch
       (await (getEntries_ParallaxBanner (ctx_client c) getParallaxBanners_query) (\<lambda>items.
          Inr (map (stamp ''parallaxBanner'') items)))
       (\<lambda>error. Inr [])"

definition getCurrentEboardMembers_query :: query where
  "getCurrentEboardMembers_query =
     \<lparr>q_content_type = ''eboardMember'', q_filters = [(''fields.memberType'', ''current'')],
      q_order = [''sys.createdAt''], q_limit = None\<rparr>"

definition getCurrentEboardMembers :: "ctx \<Rightarrow> js_error + EboardMember list" where
  "getCurrentEboardMembers c =
     try_catch
       (await (getEntries_EboardMember (ctx_client c) getCurrentEboardMembers_query) (\<lambda>items.
          Inr (map (stamp ''eboardMember'') items)))
       (\<lambda>error. Inr [])"

definition getPastEboardMembers_query :: query where
  "getPastEboardMembers_query =
     \<lparr>q_content_type = ''eboardMember'', q_filters = [(''fields.memberType'', ''past'')],
      q_order = [''sys.createdAt''], q_limit = None\<rparr>"

definition getPastEboardMembers :: "ctx \<Rightarrow> js_error + EboardMember list" where
  "getPastEboardMembers c =
     try_catch
       (await (getEntries_EboardMember (ctx_client c) getPastEboardMembers_query) (\<lambda>items.
          Inr (map (stamp ''eboardMember'') items)))
       (\<lambda>error. Inr [])"

definition getAllHackathons_query :: query where
  "getAllHackathons_query =
     \<lparr>q_content_type = ''hackathon'', q_filters = [], q_order = [''-fields.startDate''],
      q_limit = None\<rparr>"

definition getAllHackathons :: "ctx \<Rightarrow> js_error + Hackathon list" where
  "getAllHackathons c =
     try_catch
       (await (getEntries_Hackathon (ctx_client c) getAllHackathons_query) (\<lambda>items.
          Inr (map (stamp ''hackathon'') items)))
       (\<lambda>error. Inr [])"

text \<open>
  \<open>getHackathonsByStatus\<close> and \<open>getHackathonBySlug\<close> issue the same query: the content
  type and \<open>limit: 100\<close>, no filter.
\<close>

definition hackathon_page_query :: query where
  "hackathon_page_query =
     \<lparr>q_content_type = ''hackathon'', q_filters = [], q_order = [], q_limit = Some 100\<rparr>"

text \<open>\<open>item.fields.status || "upcoming"\<close>.\<close>

definition itemStatus :: "Hackathon \<Rightarrow> hackathon_status" where
  "itemStatus item = (case status (item_fields item) of None \<Rightarrow> Upcoming | Some s \<Rightarrow> s)"

definition getHackathonsByStatus :: "ctx \<Rightarrow> hackathon_status \<Rightarrow> js_error + Hackathon list" where
  "getHackathonsByStatus c st =
     try_catch
       (await (getEntries_Hackathon (ctx_client c) hackathon_page_query) (\<lambda>items.
          let filteredItems = filter (\<lambda>item. itemStatus item = st) items
          in Inr (map (stamp ''hackathon'') filteredItems)))
       (\<lambda>error. Inr [])"

definition getHackathonBySlug :: "ctx \<Rightarrow> string \<Rightarrow> js_error + Hackathon option" where
  "getHackathonBySlug c slug =
     try_catch
       (await (getEntries_Hackathon (ctx_client c) hackathon_page_query) (\<lambda>items.
          case find (\<lambda>item. sys_id item = slug) items of
            None \<Rightarrow> Inr None
          | Some hackathon \<Rightarrow> Inr (Some (stamp ''hackathon'' hackathon))))
       (\<lambda>error. Inr None)"

definition getLandingPageGraphicByTitle_query :: "string \<Rightarrow> query" where
  "getLandingPageGraphicByTitle_query title =
     \<lparr>q_content_type = ''landingPageGraphics'', q_filters = [(''fields.title'', title)],
      q_order = [], q_limit = Some 1\<rparr>"

text \<open>\<open>x?.fields?.file?.url\<close> of an optional asset, and JavaScript's truthiness of it.\<close>

definition file_url :: "asset option \<Rightarrow> string option" where
  "file_url a = (case a of None \<Rightarrow> None | Some x \<Rightarrow> url x)"

definition truthy :: "string option \<Rightarrow> bool" where
  "truthy u = (case u of None \<Rightarrow> False | Some s \<Rightarrow> s \<noteq> [])"

text \<open>
  Lines 499-527 of \<open>getLandingPageGraphicByTitle\<close>: the local \<open>imageUrl\<close> (which the
  source only writes to the console) and the \<open>modifiedItem\<close> it returns.
\<close>

definition imageUrl_of :: "LandingPageGraphic \<Rightarrow> string option" where
  "imageUrl_of item =
     (let hasGraphicField = (graphic (item_fields item) \<noteq> None);
          hasImageField = (graphic_image (item_fields item) \<noteq> None)
      in if hasImageField \<and> truthy (file_url (graphic_image (item_fields item)))
         then file_url (graphic_image (item_fields item))
         else if hasGraphicField \<and> truthy (file_url (graphic (item_fields item)))
         then file_url (graphic (item_fields item))
         else None)"

definition modifiedItem :: "LandingPageGraphic \<Rightarrow> LandingPageGraphic" where
  "modifiedItem item =
     (let hasGraphicField = (graphic (item_fields item) \<noteq> None)
      in item\<lparr>item_fields := (item_fields item)\<lparr>graphic_image :=
                 (case graphic_image (item_fields item) of
                    Some i \<Rightarrow> Some i
                  | None \<Rightarrow> (if hasGraphicField then graphic (item_fields item) else None))\<rparr>,
               contentTypeId := Some ''landingPageGraphics''\<rparr>)"

definition getLandingPageGraphicByTitle :: "ctx \<Rightarrow> string \<Rightarrow> js_error + LandingPageGraphic option" where
  "getLandingPageGraphicByTitle c title =
     try_catch
       (if falsy (CONTENTFUL_SPACE_ID (ctx_env c)) \<or> falsy (CONTENTFUL_ACCESS_TOKEN (ctx_env c))
        then Inr None
        else await (getEntries_LandingPageGraphic (ctx_client c)
                      (getLandingPageGraphicByTitle_query title)) (\<lambda>items.
          case items of
            [] \<Rightarrow> Inr None
          | item # _ \<Rightarrow> Inr (Some (modifiedItem item))))
       (\<lambda>error. Inr None)"

definition getAllLandingPageGraphics_query :: query where
  "getAllLandingPageGraphics_query =
     \<lparr>q_content_type = ''landingPageGraphics'', q_filters = [], q_order = [''sys.createdAt''],
      q_limit = None\<rparr>"

definition getAllLandingPageGraphics :: "ctx \<Rightarrow> js_error + LandingPageGraphic list" where
  "getAllLandingPageGraphics c =
     try_catch
       (await (getEntries_LandingPageGraphic (ctx_client c) getAllLandingPageGraphics_query)
          (\<lambda>items. Inr (map (stamp ''landingPageGraphics'') items)))
       (\<lambda>error. Inr [])"

section \<open>The statistics resource and the search tool (route handler)\<close>

text \<open>
  What a handler hands back: the JSON value it serialises, or the text of its
  \<open>catch\<close> branch.
\<close>

datatype 'a response = Content 'a | ErrorText string

record stats_counts =
  blogPosts :: nat
  meetings :: nat
  currentEboardMembers :: nat
  pastEboardMembers :: nat
  hackathons :: nat
  landingPageGraphics :: nat
  parallaxBanners :: nat

record stats_overview =
  overview :: string
  counts :: stats_counts
  lastUpdated :: string

text \<open>
  The \<open>contentful-stats\<close> handler, over the seven settled calls of its \<open>Promise.all\<close>:
  every call is issued, and the \<open>await\<close> throws when one of them rejected (here the
  first in the array's order). \<open>now\<close> is \<open>new Date().toISOString()\<close>.
\<close>

definition stats_of ::
  "string \<Rightarrow> js_error + BlogPost list \<Rightarrow> js_error + Meeting list \<Rightarrow>
   js_error + EboardMember list \<Rightarrow> js_error + EboardMember list \<Rightarrow>
   js_error + Hackathon list \<Rightarrow> js_error + LandingPageGraphic list \<Rightarrow>
   js_error + ParallaxBanner list \<Rightarrow> stats_overview response" where
  "stats_of now r1 r2 r3 r4 r5 r6 r7 =
     (case
        await r1 (\<lambda>posts. await r2 (\<lambda>meetings. await r3 (\<lambda>currentEboard.
        await r4 (\<lambda>pastEboard. await r5 (\<lambda>hackathons. await r6 (\<lambda>graphics.
        await r7 (\<lambda>banners.
          Inr \<lparr>overview = ''Contentful CMS Statistics'',
               counts = \<lparr>blogPosts = length posts,
                          meetings = length meetings,
                          currentEboardMembers = length currentEboard,
                          pastEboardMembers = length pastEboard,
                          hackathons = length hackathons,
                          landingPageGraphics = length graphics,
                          parallaxBanners = length banners\<rparr>,
               lastUpdated = now\<rparr>)))))))
      of
        Inr v \<Rightarrow> Content v
      | Inl error \<Rightarrow> ErrorText (''Error fetching Contentful statistics: '' @ error_message error))"

definition contentful_stats :: "(string \<Rightarrow> int) \<Rightarrow> ctx \<Rightarrow> string \<Rightarrow> stats_overview response" where
  "contentful_stats getTime c now =
     stats_of now (getAllPosts c) (getAllMeetings getTime c) (getCurrentEboardMembers c)
       (getPastEboardMembers c) (getAllHackathons c) (getAllLandingPageGraphics c)
       (getParallaxBanners c)"

text \<open>
  \<open>String.prototype.includes\<close>: the argument occurs in the string as a contiguous run.
  A string is the list of its bytes in UTF-8; for well-formed strings a run of bytes
  occurs in another exactly when the run of code units does.
\<close>

fun startsWith :: "'a list \<Rightarrow> 'a list \<Rightarrow> bool" where
  "startsWith text [] = True"
| "startsWith [] (q # qs) = False"
| "startsWith (t # ts) (q # qs) = (t = q \<and> startsWith ts qs)"

fun js_includes :: "'a list \<Rightarrow> 'a list \<Rightarrow> bool" where
  "js_includes [] q = (q = [])"
| "js_includes (t # ts) q = (startsWith (t # ts) q \<or> js_includes ts q)"

text \<open>
  The helper \<open>matchesQuery\<close> of the search handler. \<open>toLowerCase\<close> is the runtime's
  \<open>String.prototype.toLowerCase\<close> (Unicode case mapping), taken as a parameter.
\<close>

definition matchesQuery :: "(string \<Rightarrow> string) \<Rightarrow> string \<Rightarrow> string \<Rightarrow> bool" where
  "matchesQuery toLowerCase searchQuery text =
     js_includes (toLowerCase text) (toLowerCase searchQuery)"

text \<open>
  \<open>arr.slice(0, end)\<close>: a negative \<open>end\<close> counts from the end of the array, and the
  bounds are clamped to the array. A fractional \<open>end\<close> is first truncated toward zero,
  so the integer here is that truncation.
\<close>

definition slice0 :: "'a list \<Rightarrow> int \<Rightarrow> 'a list" where
  "slice0 arr e =
     (let len = int (length arr);
          final = (if e < 0 then max (len + e) 0 else min e len)
      in take (nat final) arr)"

text \<open>The object literals of the search results: keys in order, values strings or undefined.\<close>

datatype jval = JString string | JUndefined

type_synonym hit = "(string \<times> jval) list"

definition jopt :: "string option \<Rightarrow> jval" where
  "jopt v = (case v of None \<Rightarrow> JUndefined | Some s \<Rightarrow> JString s)"

definition memberType_string :: "member_type \<Rightarrow> string" where
  "memberType_string t = (case t of CurrentMember \<Rightarrow> ''current'' | PastMember \<Rightarrow> ''past'')"

definition status_string :: "hackathon_status \<Rightarrow> string" where
  "status_string s = (case s of Ongoing \<Rightarrow> ''ongoing'' | Upcoming \<Rightarrow> ''upcoming'' | Past \<Rightarrow> ''past'')"

definition post_hit :: "BlogPost \<Rightarrow> hit" where
  "post_hit post =
     [(''id'', JString (sys_id post)),
      (''type'', JString ''blogPost''),
      (''title'', JString (post_title (item_fields post))),
      (''slug'', JString (post_slug (item_fields post))),
      (''excerpt'', JString (post_excerpt (item_fields post))),
      (''author'', JString (post_author (item_fields post)))]"

definition meeting_hit :: "Meeting \<Rightarrow> hit" where
  "meeting_hit meeting =
     [(''id'', JString (sys_id meeting)),
      (''type'', JString ''meeting''),
      (''title'', JString (meeting_title (item_fields meeting))),
      (''date'', JString (meeting_date (item_fields meeting))),
      (''description'', JString (meeting_description (item_fields meeting)))]"

definition member_hit :: "EboardMember \<Rightarrow> hit" where
  "member_hit member =
     [(''id'', JString (sys_id member)),
      (''type'', JString ''eboardMember''),
      (''name'', JString (member_name (item_fields member))),
      (''position'', JString (member_position (item_fields member))),
      (''memberType'', JString (memberType_string (memberType (item_fields member))))]"

definition hackathon_hit :: "Hackathon \<Rightarrow> hit" where
  "hackathon_hit hackathon =
     [(''id'', JString (sys_id hackathon)),
      (''type'', JString ''hackathon''),
      (''title'', JString (hackathon_title (item_fields hackathon))),
      (''description'', JString (hackathon_description (item_fields hackathon))),
      (''status'', jopt (map_option status_string (status (item_fields hackathon))))]"

definition post_matches :: "(string \<Rightarrow> string) \<Rightarrow> string \<Rightarrow> BlogPost \<Rightarrow> bool" where
  "post_matches toLowerCase searchQuery post =
     (matchesQuery toLowerCase searchQuery (post_title (item_fields post)) \<or>
      matchesQuery toLowerCase searchQuery (post_excerpt (item_fields post)) \<or>
      matchesQuery toLowerCase searchQuery (post_author (item_fields post)))"

definition meeting_matches :: "(string \<Rightarrow> string) \<Rightarrow> string \<Rightarrow> Meeting \<Rightarrow> bool" where
  "meeting_matches toLowerCase searchQuery meeting =
     (matchesQuery toLowerCase searchQuery (meeting_title (item_fields meeting)) \<or>
      matchesQuery toLowerCase searchQuery (meeting_description (item_fields meeting)))"

definition member_matches :: "(string \<Rightarrow> string) \<Rightarrow> string \<Rightarrow> EboardMember \<Rightarrow> bool" where
  "member_matches toLowerCase searchQuery member =
     (matchesQuery toLowerCase searchQuery (member_name (item_fields member)) \<or>
      matchesQuery toLowerCase searchQuery (member_position (item_fields member)) \<or>
      matchesQuery toLowerCase searchQuery (member_description (item_fields member)))"

definition hackathon_matches :: "(string \<Rightarrow> string) \<Rightarrow> string \<Rightarrow> Hackathon \<Rightarrow> bool" where
  "hackathon_matches toLowerCase searchQuery hackathon =
     (matchesQuery toLowerCase searchQuery (hackathon_title (item_fields hackathon)) \<or>
      matchesQuery toLowerCase searchQuery (hackathon_description (item_fields hackathon)))"

definition default_typesToSearch :: "string list" where
  "default_typesToSearch =
     [''blogPost'', ''meeting'', ''eboardMember'', ''hackathon'', ''landingPageGraphics'',
      ''parallaxBanner'']"

text \<open>
  The envelope: \<open>results\<close> is the object \<open>searchResults\<close>, its keys in insertion order.
\<close>

record search_envelope =
  searchQuery :: string
  contentTypes :: "string list"
  totalResults :: nat
  results :: "(string \<times> hit list) list"

text \<open>
  The handler's parameters: \<open>contentTypes\<close> is \<open>None\<close> when the caller gives no list
  (an empty list is truthy, so \<open>contentTypes || [...]\<close> keeps it), and \<open>limit = 5\<close>
  applies only when no limit is given.
\<close>

definition typesToSearch_of :: "string list option \<Rightarrow> string list" where
  "typesToSearch_of contentTypes_arg =
     (case contentTypes_arg of None \<Rightarrow> default_typesToSearch | Some ts \<Rightarrow> ts)"

definition limit_or_default :: "int option \<Rightarrow> int" where
  "limit_or_default limit_arg = (case limit_arg of None \<Rightarrow> 5 | Some l \<Rightarrow> l)"

text \<open>
  The body of the \<open>search-content\<close> handler's \<open>try\<close>. Each branch sets one key of
  \<open>searchResults\<close>; \<open>totalResults\<close> adds up the lengths of its values.
\<close>

definition search_body ::
  "(string \<Rightarrow> string) \<Rightarrow> (string \<Rightarrow> int) \<Rightarrow> ctx \<Rightarrow> string \<Rightarrow> string list option \<Rightarrow> int option \<Rightarrow>
   js_error + search_envelope" where
  "search_body toLowerCase getTime c query contentTypes_arg limit_arg =
     (let limit = limit_or_default limit_arg;
          typesToSearch = typesToSearch_of contentTypes_arg
      in
      await (if ''blogPost'' \<in> set typesToSearch
             then await (getAllPosts c) (\<lambda>posts.
                    Inr [(''blogPosts'',
                          map post_hit (slice0 (filter (post_matches toLowerCase query) posts) limit))])
             else Inr []) (\<lambda>r1.
      await (if ''meeting'' \<in> set typesToSearch
             then await (getAllMeetings getTime c) (\<lambda>meetings.
                    Inr [(''meetings'',
                          map meeting_hit (slice0 (filter (meeting_matches toLowerCase query) meetings) limit))])
             else Inr []) (\<lambda>r2.
      await (if ''eboardMember'' \<in> set typesToSearch
             then await (getCurrentEboardMembers c) (\<lambda>current.
                  await (getPastEboardMembers c) (\<lambda>past.
                    let allMembers = current @ past
                    in Inr [(''eboardMembers'',
                             map member_hit (slice0 (filter (member_matches toLowerCase query) allMembers) limit))]))
             else Inr []) (\<lambda>r3.
      await (if ''hackathon'' \<in> set typesToSearch
             then await (getAllHackathons c) (\<lambda>hackathons.
                    Inr [(''hackathons'',
                          map hackathon_hit
                            (slice0 (filter (hackathon_matches toLowerCase query) hackathons) limit))])
             else Inr []) (\<lambda>r4.
      let searchResults = r1 @ r2 @ r3 @ r4;
          total = foldl (\<lambda>sum kv. sum + length (snd kv)) 0 searchResults
      in Inr \<lparr>searchQuery = query,
              contentTypes = typesToSearch,
              totalResults = total,
              results = searchResults\<rparr>)))))"

definition search_content ::
  "(string \<Rightarrow> string) \<Rightarrow> (string \<Rightarrow> int) \<Rightarrow> ctx \<Rightarrow> string \<Rightarrow> string list option \<Rightarrow> int option \<Rightarrow>
   search_envelope response" where
  "search_content toLowerCase getTime c query contentTypes_arg limit_arg =
     (case search_body toLowerCase getTime c query contentTypes_arg limit_arg of
        Inr v \<Rightarrow> Content v
      | Inl error \<Rightarrow> ErrorText (''Error searching content: '' @ error_message error))"

text \<open>
  The truncation step of the per-type query tools (\<open>query-blog-posts\<close>, \<open>query-meetings\<close>,
  \<open>query-eboard-members\<close>, \<open>query-hackathons\<close>, \<open>query-graphics\<close>, \<open>query-banners\<close>):
  \<open>if (limit && limit > 0) results = results.slice(0, limit)\<close>.
\<close>

definition limit_results :: "'a list \<Rightarrow> int option \<Rightarrow> 'a list" where
  "limit_results res limit_arg =
     (case limit_arg of
        None \<Rightarrow> res
      | Some limit \<Rightarrow> if limit \<noteq> 0 \<and> limit > 0 then slice0 res limit else res)"

section \<open>Example stores\<close>

text \<open>Small in-memory stores and clients, used to run the definitions on concrete inputs.\<close>

definition no_asset :: asset where
  "no_asset = \<lparr>url = None, asset_title = None\<rparr>"

definition mk_post :: "string \<Rightarrow> string \<Rightarrow> string \<Rightarrow> string \<Rightarrow> BlogPost" where
  "mk_post i t ex au =
     \<lparr>sys_id = i, contentTypeId = Some ''raw'',
      item_fields = \<lparr>post_title = t, post_slug = i, post_content = [], post_excerpt = ex,
                     post_author = au, post_publishDate = [], post_coverImage = no_asset\<rparr>\<rparr>"

definition mk_meeting :: "string \<Rightarrow> string \<Rightarrow> string \<Rightarrow> string \<Rightarrow> Meeting" where
  "mk_meeting i t d desc =
     \<lparr>sys_id = i, contentTypeId = None,
      item_fields = \<lparr>meeting_title = t, meeting_date = d, meeting_description = desc,
                     meeting_image = no_asset, meetingLocation = None, slides = None,
                     slidesUrl = None, recording = None, resourcesUrl = None\<rparr>\<rparr>"

definition mk_member :: "string \<Rightarrow> string \<Rightarrow> string \<Rightarrow> member_type \<Rightarrow> EboardMember" where
  "mk_member i n pos mt =
     \<lparr>sys_id = i, contentTypeId = None,
      item_fields = \<lparr>member_name = n, member_position = pos, member_description = [],
                     linkedin = [], github = None, member_year = None,
                     member_image = no_asset, memberType = mt\<rparr>\<rparr>"

definition mk_hackathon ::
  "string \<Rightarrow> string \<Rightarrow> string option \<Rightarrow> hackathon_status option \<Rightarrow> Hackathon" where
  "mk_hackathon i t sl st =
     \<lparr>sys_id = i, contentTypeId = Some ''raw'',
      item_fields = \<lparr>hackathon_title = t, hackathon_slug = sl, hackathon_description = [],
                     startDate = None, endDate = None, status = st, registrationLink = None,
                     details = None, hackathon_image = no_asset\<rparr>\<rparr>"

definition mk_graphic :: "string \<Rightarrow> asset option \<Rightarrow> asset option \<Rightarrow> LandingPageGraphic" where
  "mk_graphic t img gr =
     \<lparr>sys_id = ''g1'', contentTypeId = Some ''raw'',
      item_fields = \<lparr>graphic_title = t, graphic_description = None, graphic_image = img,
                     graphic = gr\<rparr>\<rparr>"

definition mk_banner :: "string \<Rightarrow> string \<Rightarrow> ParallaxBanner" where
  "mk_banner i t =
     \<lparr>sys_id = i, contentTypeId = None,
      item_fields = \<lparr>banner_title = t, banner_image = no_asset, banner_link = None\<rparr>\<rparr>"

text \<open>
  A client over fixed lists. It answers by content type, applies the member-type filter,
  and ignores the other criteria.
\<close>

definition store_client ::
  "BlogPost list \<Rightarrow> Meeting list \<Rightarrow> EboardMember list \<Rightarrow> Hackathon list \<Rightarrow>
   LandingPageGraphic list \<Rightarrow> ParallaxBanner list \<Rightarrow> client" where
  "store_client ps ms es hs gs bs =
     \<lparr>getEntries_BlogPost = (\<lambda>q. Inr ps),
      getEntries_Meeting = (\<lambda>q. Inr (if q_content_type q = ''meeting'' then ms else [])),
      getEntries_ParallaxBanner = (\<lambda>q. Inr bs),
      getEntries_EboardMember = (\<lambda>q. Inr (filter (\<lambda>m.
          (''fields.memberType'', memberType_string (memberType (item_fields m)))
            \<in> set (q_filters q)) es)),
      getEntries_Hackathon = (\<lambda>q. Inr hs),
      getEntries_LandingPageGraphic = (\<lambda>q. Inr gs)\<rparr>"

text \<open>A client whose every call rejects.\<close>

definition failing_client :: "js_error \<Rightarrow> client" where
  "failing_client e =
     \<lparr>getEntries_BlogPost = (\<lambda>q. Inl e),
      getEntries_Meeting = (\<lambda>q. Inl e),
      getEntries_ParallaxBanner = (\<lambda>q. Inl e),
      getEntries_EboardMember = (\<lambda>q. Inl e),
      getEntries_Hackathon = (\<lambda>q. Inl e),
      getEntries_LandingPageGraphic = (\<lambda>q. Inl e)\<rparr>"

definition good_env :: env where
  "good_env = \<lparr>REDIS_URL = ''redis://r'', CONTENTFUL_SPACE_ID = ''space'',
               CONTENTFUL_ACCESS_TOKEN = ''token''\<rparr>"

definition simple_getTime :: "string \<Rightarrow> int" where
  "simple_getTime s = int (length s)"

text \<open>
  Two lower-casing functions to run the search with. The first maps the ASCII capitals
  and leaves every other byte; the second also maps the capitals of the Latin-1
  supplement (U+00C0 to U+00DE but U+00D7, the bytes C3 80 to C3 9E but C3 97 in
  UTF-8). On text within these ranges they agree with \<open>String.prototype.toLowerCase\<close>.
\<close>

definition ascii_toLowerCase_char :: "char \<Rightarrow> char" where
  "ascii_toLowerCase_char ch =
     (let n = (of_char ch :: nat) in if 65 \<le> n \<and> n \<le> 90 then char_of (n + 32) else ch)"

definition ascii_toLowerCase :: "string \<Rightarrow> string" where
  "ascii_toLowerCase s = map ascii_toLowerCase_char s"

fun latin_toLowerCase :: "string \<Rightarrow> string" where
  "latin_toLowerCase [] = []"
| "latin_toLowerCase [ch] = [ascii_toLowerCase_char ch]"
| "latin_toLowerCase (ch # d # rest) =
     (if ch = CHR 0xC3 \<and> 128 \<le> (of_char d :: nat) \<and> (of_char d :: nat) \<le> 158 \<and> d \<noteq> CHR 0x97
      then ch # char_of ((of_char d :: nat) + 32) # latin_toLowerCase rest
      else ascii_toLowerCase_char ch # latin_toLowerCase (d # rest))"

text \<open>The words \<open>ECOLE\<close> and \<open>ecole\<close> with an acute accent on the first letter.\<close>

definition ecole_upper :: string where
  "ecole_upper = [CHR 0xC3, CHR 0x89] @ ''COLE''"

definition ecole_lower :: string where
  "ecole_lower = [CHR 0xC3, CHR 0xA9] @ ''cole''"

definition ecole_ctx :: ctx where
  "ecole_ctx =
     \<lparr>ctx_env = good_env,
      ctx_client = store_client [mk_post ''p9'' ecole_upper ''Rentree'' ''Ada''] [] [] [] [] []\<rparr>"

definition down_ctx :: ctx where
  "down_ctx = \<lparr>ctx_env = good_env, ctx_client = failing_client (Error ''ECONNREFUSED'')\<rparr>"

definition club_posts :: "BlogPost list" where
  "club_posts =
     [mk_post ''p1'' ''Hackathon recap'' ''What we built'' ''Ada'',
      mk_post ''p2'' ''Welcome'' ''Join the HACKATHON team'' ''Grace'',
      mk_post ''p3'' ''Budget'' ''Numbers'' ''Linus'']"

definition club_meetings :: "Meeting list" where
  "club_meetings =
     [mk_meeting ''m1'' ''Kickoff'' ''2024'' ''First meeting'',
      mk_meeting ''m2'' ''Planning'' ''2024-10'' ''Hackathon logistics'']"

definition club_members :: "EboardMember list" where
  "club_members =
     [mk_member ''e1'' ''Grace'' ''Hackathon Chair'' PastMember,
      mk_member ''e2'' ''Ada'' ''President'' CurrentMember]"

definition club_hackathons :: "Hackathon list" where
  "club_hackathons =
     [mk_hackathon ''h1'' ''Spring Hackathon'' (Some ''spring'') None,
      mk_hackathon ''h2'' ''Fall Hack'' (Some ''fall'') (Some Past),
      mk_hackathon ''h3'' ''Game Jam'' None (Some Ongoing)]"

definition club_graphics :: "LandingPageGraphic list" where
  "club_graphics =
     [mk_graphic ''Hero'' None (Some \<lparr>url = Some ''//img/hero.png'', asset_title = None\<rparr>)]"

definition club_banners :: "ParallaxBanner list" where
  "club_banners = [mk_banner ''b1'' ''Join us'']"

definition club_ctx :: ctx where
  "club_ctx =
     \<lparr>ctx_env = good_env,
      ctx_client = store_client club_posts club_meetings club_members club_hackathons
                     club_graphics club_banners\<rparr>"

text \<open>A graphic whose linked asset did not resolve: the link is there, its file is not.\<close>

definition unresolved_graphic :: LandingPageGraphic where
  "unresolved_graphic = mk_graphic ''Hero'' None (Some no_asset)"

text \<open>A graphic whose linked asset has the empty string for its file URL.\<close>

definition blank_url_graphic :: LandingPageGraphic where
  "blank_url_graphic = mk_graphic ''Hero'' None (Some \<lparr>url = Some [], asset_title = None\<rparr>)"

definition unresolved_ctx :: ctx where
  "unresolved_ctx =
     \<lparr>ctx_env = good_env,
      ctx_client = store_client [] [] [] [] [unresolved_graphic] []\<rparr>"

text \<open>Process environments and client constructors to run the initialisation on.\<close>

definition empty_token_penv :: process_env where
  "empty_token_penv =
     \<lparr>penv_REDIS_URL = Some ''redis://r'', penv_CONTENTFUL_SPACE_ID = Some ''space'',
      penv_CONTENTFUL_ACCESS_TOKEN = Some ''''\<rparr>"

definition missing_space_penv :: process_env where
  "missing_space_penv =
     \<lparr>penv_REDIS_URL = Some ''redis://r'', penv_CONTENTFUL_SPACE_ID = None,
      penv_CONTENTFUL_ACCESS_TOKEN = Some ''token''\<rparr>"

definition good_penv :: process_env where
  "good_penv =
     \<lparr>penv_REDIS_URL = Some ''redis://r'', penv_CONTENTFUL_SPACE_ID = Some ''space'',
      penv_CONTENTFUL_ACCESS_TOKEN = Some ''token''\<rparr>"

definition ok_createClient :: "string \<Rightarrow> string \<Rightarrow> js_error + client" where
  "ok_createClient space accessToken =
     Inr (store_client club_posts club_meetings club_members club_hackathons club_graphics
            club_banners)"

definition throwing_createClient :: "string \<Rightarrow> string \<Rightarrow> js_error + client" where
  "throwing_createClient space accessToken = Inl (Error ''Expected parameter accessToken'')"

section \<open>The specification's words\<close>

text \<open>
  The words of the specification, to compare the code with: the text contains the query
  as a case-insensitive substring (the two are compared after the runtime's lower-casing),
  and at most \<open>limit\<close> matches are kept for each type.
\<close>

definition contains_ci :: "(string \<Rightarrow> string) \<Rightarrow> string \<Rightarrow> string \<Rightarrow> bool" where
  "contains_ci toLowerCase text query =
     (\<exists>before after. toLowerCase text = before @ toLowerCase query @ after)"

definition kept_at_most :: "int \<Rightarrow> search_envelope \<Rightarrow> bool" where
  "kept_at_most limit v = list_all (\<lambda>kv. int (length (snd kv)) \<le> limit) (results v)"

section \<open>Example searches\<close>

text \<open>The envelopes of four searches over the example stores.\<close>

definition negative_limit_envelope :: search_envelope where
  "negative_limit_envelope =
     \<lparr>searchQuery = ''hackathon'',
      contentTypes = [''blogPost''],
      totalResults = 1,
      results =
        [(''blogPosts'',
          [post_hit (stamp ''blogPost'' (mk_post ''p1'' ''Hackathon recap'' ''What we built'' ''Ada''))])]\<rparr>"

definition ecole_envelope :: search_envelope where
  "ecole_envelope =
     \<lparr>searchQuery = ecole_lower,
      contentTypes = [''blogPost''],
      totalResults = 1,
      results =
        [(''blogPosts'',
          [post_hit (stamp ''blogPost'' (mk_post ''p9'' ecole_upper ''Rentree'' ''Ada''))])]\<rparr>"

definition default_scope_envelope :: search_envelope where
  "default_scope_envelope =
     \<lparr>searchQuery = ''hackathon'',
      contentTypes = [''blogPost'', ''meeting'', ''eboardMember'', ''hackathon'',
                      ''landingPageGraphics'', ''parallaxBanner''],
      totalResults = 4,
      results =
        [(''blogPosts'',
          [post_hit (stamp ''blogPost'' (mk_post ''p1'' ''Hackathon recap'' ''What we built'' ''Ada''))]),
         (''meetings'',
          [meeting_hit (stamp ''meeting''
             (mk_meeting ''m2'' ''Planning'' ''2024-10'' ''Hackathon logistics''))]),
         (''eboardMembers'',
          [member_hit (stamp ''eboardMember''
             (mk_member ''e1'' ''Grace'' ''Hackathon Chair'' PastMember))]),
         (''hackathons'',
          [hackathon_hit (stamp ''hackathon''
             (mk_hackathon ''h1'' ''Spring Hackathon'' (Some ''spring'') None))])]\<rparr>"

definition banner_scope_envelope :: search_envelope where
  "banner_scope_envelope =
     \<lparr>searchQuery = ''join'',
      contentTypes = [''parallaxBanner'', ''landingPageGraphics'', ''blogPost''],
      totalResults = 1,
      results =
        [(''blogPosts'',
          [post_hit (stamp ''blogPost''
             (mk_post ''p2'' ''Welcome'' ''Join the HACKATHON team'' ''Grace''))])]\<rparr>"

section \<open>Resolvers never throw\<close>

lemma try_catch_total:
  assumes "\<And>e. \<exists>r. handler e = Inr r"
  shows "\<exists>r. try_catch body handler = Inr r"
  using assms by (cases body) (auto simp: try_catch_def)

lemma try_catch_await_Inl:
  "p = Inl e \<Longrightarrow> try_catch (await p k) handler = handler e"
  by (simp add: try_catch_def await_def)

lemma try_catch_await_Inr:
  "p = Inr v \<Longrightarrow> k v = Inr w \<Longrightarrow> try_catch (await p k) handler = Inr w"
  by (simp add: try_catch_def await_def)

lemmas list_resolver_defs =
  getAllPosts_def getAllMeetings_def getUpcomingMeetings_def getParallaxBanners_def
  getCurrentEboardMembers_def getPastEboardMembers_def getAllHackathons_def
  getHackathonsByStatus_def getAllLandingPageGraphics_def

lemmas single_resolver_defs =
  getPostBySlug_def getHackathonBySlug_def getLandingPageGraphicByTitle_def

lemma list_resolvers_total:
  "\<exists>r. getAllPosts c = Inr r"
  "\<exists>r. getAllMeetings gt c = Inr r"
  "\<exists>r. getUpcomingMeetings c = Inr r"
  "\<exists>r. getParallaxBanners c = Inr r"
  "\<exists>r. getCurrentEboardMembers c = Inr r"
  "\<exists>r. getPastEboardMembers c = Inr r"
  "\<exists>r. getAllHackathons c = Inr r"
  "\<exists>r. getHackathonsByStatus c st = Inr r"
  "\<exists>r. getAllLandingPageGraphics c = Inr r"
  unfolding list_resolver_defs by (rule try_catch_total, simp)+

lemma single_resolvers_total:
  "\<exists>r. getPostBySlug c slug = Inr r"
  "\<exists>r. getHackathonBySlug c slug = Inr r"
  "\<exists>r. getLandingPageGraphicByTitle c title = Inr r"
  unfolding single_resolver_defs by (rule try_catch_total, simp)+

lemma list_resolvers_fail_open:
  "getEntries_BlogPost (ctx_client c) getAllPosts_query = Inl e \<Longrightarrow> getAllPosts c = Inr []"
  "getEntries_Meeting (ctx_client c) getAllMeetings_query = Inl e \<Longrightarrow> getAllMeetings gt c = Inr []"
  "getEntries_Meeting (ctx_client c) getUpcomingMeetings_query = Inl e \<Longrightarrow> getUpcomingMeetings c = Inr []"
  "getEntries_ParallaxBanner (ctx_client c) getParallaxBanners_query = Inl e \<Longrightarrow> getParallaxBanners c = Inr []"
  "getEntries_EboardMember (ctx_client c) getCurrentEboardMembers_query = Inl e \<Longrightarrow> getCurrentEboardMembers c = Inr []"
  "getEntries_EboardMember (ctx_client c) getPastEboardMembers_query = Inl e \<Longrightarrow> getPastEboardMembers c = Inr []"
  "getEntries_Hackathon (ctx_client c) getAllHackathons_query = Inl e \<Longrightarrow> getAllHackathons c = Inr []"
  "getEntries_Hackathon (ctx_client c) hackathon_page_query = Inl e \<Longrightarrow> getHackathonsByStatus c st = Inr []"
  "getEntries_LandingPageGraphic (ctx_client c) getAllLandingPageGraphics_query = Inl e \<Longrightarrow> getAllLandingPageGraphics c = Inr []"
  unfolding list_resolver_defs by (simp_all add: try_catch_await_Inl)

lemma single_resolvers_fail_open:
  "getEntries_BlogPost (ctx_client c) (getPostBySlug_query slug) = Inl e \<Longrightarrow> getPostBySlug c slug = Inr None"
  "getEntries_Hackathon (ctx_client c) hackathon_page_query = Inl e \<Longrightarrow> getHackathonBySlug c slug = Inr None"
  "getEntries_LandingPageGraphic (ctx_client c) (getLandingPageGraphicByTitle_query title) = Inl e
     \<Longrightarrow> getLandingPageGraphicByTitle c title = Inr None"
  unfolding single_resolver_defs by (simp_all add: try_catch_def await_def)

text \<open>
  C1. Every resolver returns a value and never throws. When its remote call rejects, a
  list-returning resolver returns the empty array and a single-entity lookup returns null.
\<close>

theorem resolvers_total_fail_open:
  "(\<exists>r. getAllPosts c = Inr r) \<and>
   (\<exists>r. getAllMeetings gt c = Inr r) \<and>
   (\<exists>r. getUpcomingMeetings c = Inr r) \<and>
   (\<exists>r. getCurrentEboardMembers c = Inr r) \<and>
   (\<exists>r. getPastEboardMembers c = Inr r) \<and>
   (\<exists>r. getAllHackathons c = Inr r) \<and>
   (\<exists>r. getHackathonsByStatus c st = Inr r) \<and>
   (\<exists>r. getAllLandingPageGraphics c = Inr r) \<and>
   (\<exists>r. getParallaxBanners c = Inr r) \<and>
   (\<exists>r. getPostBySlug c slug = Inr r) \<and>
   (\<exists>r. getHackathonBySlug c slug = Inr r) \<and>
   (\<exists>r. getLandingPageGraphicByTitle c title = Inr r) \<and>
   (getEntries_BlogPost (ctx_client c) getAllPosts_query = Inl e
      \<longrightarrow> getAllPosts c = Inr []) \<and>
   (getEntries_Meeting (ctx_client c) getAllMeetings_query = Inl e
      \<longrightarrow> getAllMeetings gt c = Inr []) \<and>
   (getEntries_Meeting (ctx_client c) getUpcomingMeetings_query = Inl e
      \<longrightarrow> getUpcomingMeetings c = Inr []) \<and>
   (getEntries_EboardMember (ctx_client c) getCurrentEboardMembers_query = Inl e
      \<longrightarrow> getCurrentEboardMembers c = Inr []) \<and>
   (getEntries_EboardMember (ctx_client c) getPastEboardMembers_query = Inl e
      \<longrightarrow> getPastEboardMembers c = Inr []) \<and>
   (getEntries_Hackathon (ctx_client c) getAllHackathons_query = Inl e
      \<longrightarrow> getAllHackathons c = Inr []) \<and>
   (getEntries_Hackathon (ctx_client c) hackathon_page_query = Inl e
      \<longrightarrow> getHackathonsByStatus c st = Inr []) \<and>
   (getEntries_LandingPageGraphic (ctx_client c) getAllLandingPageGraphics_query = Inl e
      \<longrightarrow> getAllLandingPageGraphics c = Inr []) \<and>
   (getEntries_ParallaxBanner (ctx_client c) getParallaxBanners_query = Inl e
      \<longrightarrow> getParallaxBanners c = Inr []) \<and>
   (getEntries_BlogPost (ctx_client c) (getPostBySlug_query slug) = Inl e
      \<longrightarrow> getPostBySlug c slug = Inr None) \<and>
   (getEntries_Hackathon (ctx_client c) hackathon_page_query = Inl e
      \<longrightarrow> getHackathonBySlug c slug = Inr None) \<and>
   (getEntries_LandingPageGraphic (ctx_client c) (getLandingPageGraphicByTitle_query title) = Inl e
      \<longrightarrow> getLandingPageGraphicByTitle c title = Inr None)"
  by (intro conjI impI)
    (rule list_resolvers_total single_resolvers_total
      | erule list_resolvers_fail_open single_resolvers_fail_open)+

theorem resolvers_total_fail_open_witness:
  "getAllPosts down_ctx = Inr [] \<and>
   getAllMeetings simple_getTime down_ctx = Inr [] \<and>
   getUpcomingMeetings down_ctx = Inr [] \<and>
   getCurrentEboardMembers down_ctx = Inr [] \<and>
   getPastEboardMembers down_ctx = Inr [] \<and>
   getAllHackathons down_ctx = Inr [] \<and>
   getHackathonsByStatus down_ctx Past = Inr [] \<and>
   getAllLandingPageGraphics down_ctx = Inr [] \<and>
   getParallaxBanners down_ctx = Inr [] \<and>
   getPostBySlug down_ctx ''hello'' = Inr None \<and>
   getHackathonBySlug down_ctx ''hello'' = Inr None \<and>
   getLandingPageGraphicByTitle down_ctx ''Hero'' = Inr None"
  using resolvers_total_fail_open
    [where c = down_ctx and gt = simple_getTime and st = Past and slug = "''hello''"
       and title = "''Hero''" and e = "Error ''ECONNREFUSED''"]
  by (simp add: down_ctx_def failing_client_def)

lemmas query_defs =
  getAllPosts_query_def getPostBySlug_query_def getAllMeetings_query_def
  getUpcomingMeetings_query_def getParallaxBanners_query_def
  getCurrentEboardMembers_query_def getPastEboardMembers_query_def
  getAllHackathons_query_def hackathon_page_query_def
  getLandingPageGraphicByTitle_query_def getAllLandingPageGraphics_query_def

section \<open>The content-type stamp\<close>

lemma contentTypeId_stamp [simp]: "contentTypeId (stamp t item) = Some t"
  by (simp add: stamp_def)









section \<open>Hackathons by status and by identifier\<close>

lemma stamp_fields [simp]: "item_fields (stamp t item) = item_fields item"
  by (simp add: stamp_def)

lemma stamp_sys_id [simp]: "sys_id (stamp t item) = sys_id item"
  by (simp add: stamp_def)

lemma itemStatus_stamp [simp]: "itemStatus (stamp t item) = itemStatus item"
  by (simp add: itemStatus_def)

lemma getHackathonsByStatus_fetched:
  assumes "getEntries_Hackathon (ctx_client c) hackathon_page_query = Inr items"
  shows "getHackathonsByStatus c st =
           Inr (map (stamp ''hackathon'') (filter (\<lambda>item. itemStatus item = st) items))"
  using assms by (simp add: getHackathonsByStatus_def try_catch_def await_def)

lemma stamped_member_status:
  assumes "stamp t item \<in> set (map (stamp t) (filter (\<lambda>i. itemStatus i = st) items))"
  shows "itemStatus item = st"
proof -
  from assms obtain j where j: "itemStatus j = st" and eq: "stamp t item = stamp t j"
    by auto
  from eq have "itemStatus (stamp t item) = itemStatus (stamp t j)"
    by simp
  with j show ?thesis
    by simp
qed

lemma status_partition_length:
  "length (filter (\<lambda>i. itemStatus i = Ongoing) items) +
   length (filter (\<lambda>i. itemStatus i = Upcoming) items) +
   length (filter (\<lambda>i. itemStatus i = Past) items) = length items"
proof (induction items)
  case Nil
  show ?case by simp
next
  case (Cons item items)
  then show ?case
    by (cases "itemStatus item") simp_all
qed

lemma in_exactly_one_partition:
  assumes fetched: "getEntries_Hackathon (ctx_client c) hackathon_page_query = Inr items"
    and mem: "item \<in> set items"
  shows "\<exists>!st. \<exists>r. getHackathonsByStatus c st = Inr r \<and> stamp ''hackathon'' item \<in> set r"
proof (rule ex1I [where a = "itemStatus item"])
  show "\<exists>r. getHackathonsByStatus c (itemStatus item) = Inr r \<and> stamp ''hackathon'' item \<in> set r"
    using mem by (simp add: getHackathonsByStatus_fetched [OF fetched])
next
  fix st
  assume "\<exists>r. getHackathonsByStatus c st = Inr r \<and> stamp ''hackathon'' item \<in> set r"
  then have "stamp ''hackathon'' item
      \<in> set (map (stamp ''hackathon'') (filter (\<lambda>i. itemStatus i = st) items))"
    by (simp add: getHackathonsByStatus_fetched [OF fetched])
  then show "st = itemStatus item"
    by (rule stamped_member_status [symmetric])
qed

text \<open>
  C4. \<open>getHackathonsByStatus\<close> asks for the hackathon page with \<open>limit: 100\<close> and no
  filter, and classifies what it fetched itself: a record without a status counts as
  upcoming, and the result for a status is exactly the fetched records of that status, in
  order. So every fetched record is in the result of exactly one of the three statuses,
  and the three results together are as long as the fetched page.
\<close>

theorem getHackathonsByStatus_partition:
  assumes "getEntries_Hackathon (ctx_client c) hackathon_page_query = Inr items"
  shows "q_content_type hackathon_page_query = ''hackathon'' \<and>
         q_limit hackathon_page_query = Some 100 \<and>
         q_filters hackathon_page_query = [] \<and>
         (\<forall>st. getHackathonsByStatus c st =
                 Inr (map (stamp ''hackathon'') (filter (\<lambda>item. itemStatus item = st) items))) \<and>
         (\<forall>item. status (item_fields item) = None \<longrightarrow> itemStatus item = Upcoming) \<and>
         (\<forall>item s. status (item_fields item) = Some s \<longrightarrow> itemStatus item = s) \<and>
         (\<forall>item\<in>set items.
            \<exists>!st. \<exists>r. getHackathonsByStatus c st = Inr r \<and> stamp ''hackathon'' item \<in> set r) \<and>
         (\<forall>r1 r2 r3.
            getHackathonsByStatus c Ongoing = Inr r1 \<and>
            getHackathonsByStatus c Upcoming = Inr r2 \<and>
            getHackathonsByStatus c Past = Inr r3
            \<longrightarrow> length r1 + length r2 + length r3 = length items)"
proof (intro conjI allI ballI impI)
  show "q_content_type hackathon_page_query = ''hackathon''"
    and "q_limit hackathon_page_query = Some 100"
    and "q_filters hackathon_page_query = []"
    by (simp_all add: hackathon_page_query_def)
next
  fix st
  show "getHackathonsByStatus c st =
          Inr (map (stamp ''hackathon'') (filter (\<lambda>item. itemStatus item = st) items))"
    by (rule getHackathonsByStatus_fetched [OF assms])
next
  fix item :: Hackathon
  assume "status (item_fields item) = None"
  then show "itemStatus item = Upcoming"
    by (simp add: itemStatus_def)
next
  fix item :: Hackathon and s
  assume "status (item_fields item) = Some s"
  then show "itemStatus item = s"
    by (simp add: itemStatus_def)
next
  fix item
  assume "item \<in> set items"
  then show "\<exists>!st. \<exists>r. getHackathonsByStatus c st = Inr r \<and> stamp ''hackathon'' item \<in> set r"
    by (rule in_exactly_one_partition [OF assms])
next
  fix r1 r2 r3
  assume "getHackathonsByStatus c Ongoing = Inr r1 \<and>
          getHackathonsByStatus c Upcoming = Inr r2 \<and>
          getHackathonsByStatus c Past = Inr r3"
  then show "length r1 + length r2 + length r3 = length items"
    using status_partition_length [of items]
    by (auto simp: getHackathonsByStatus_fetched [OF assms])
qed

lemma club_hackathons_fetched:
  "getEntries_Hackathon (ctx_client club_ctx) hackathon_page_query = Inr club_hackathons"
  by (simp add: club_ctx_def store_client_def)

theorem getHackathonsByStatus_partition_witness:
  "getEntries_Hackathon (ctx_client club_ctx) hackathon_page_query = Inr club_hackathons \<and>
   getHackathonsByStatus club_ctx Ongoing =
     Inr [stamp ''hackathon'' (mk_hackathon ''h3'' ''Game Jam'' None (Some Ongoing))] \<and>
   getHackathonsByStatus club_ctx Upcoming =
     Inr [stamp ''hackathon'' (mk_hackathon ''h1'' ''Spring Hackathon'' (Some ''spring'') None)] \<and>
   getHackathonsByStatus club_ctx Past =
     Inr [stamp ''hackathon'' (mk_hackathon ''h2'' ''Fall Hack'' (Some ''fall'') (Some Past))]"
proof -
  note fetched = club_hackathons_fetched
  note by_status = getHackathonsByStatus_partition
    [OF fetched, THEN conjunct2, THEN conjunct2, THEN conjunct2, THEN conjunct1, THEN spec]
  have "filter (\<lambda>item. itemStatus item = Ongoing) club_hackathons =
          [mk_hackathon ''h3'' ''Game Jam'' None (Some Ongoing)]"
    and "filter (\<lambda>item. itemStatus item = Upcoming) club_hackathons =
          [mk_hackathon ''h1'' ''Spring Hackathon'' (Some ''spring'') None]"
    and "filter (\<lambda>item. itemStatus item = Past) club_hackathons =
          [mk_hackathon ''h2'' ''Fall Hack'' (Some ''fall'') (Some Past)]"
    by (simp_all add: club_hackathons_def mk_hackathon_def itemStatus_def)
  then show ?thesis
    by (simp add: fetched by_status)
qed

lemma getHackathonBySlug_fetched:
  assumes "getEntries_Hackathon (ctx_client c) hackathon_page_query = Inr items"
  shows "getHackathonBySlug c slug =
           Inr (map_option (stamp ''hackathon'') (find (\<lambda>item. sys_id item = slug) items))"
  using assms
  by (simp add: getHackathonBySlug_def try_catch_def await_def split: option.splits)

text \<open>
  C7. \<open>getHackathonBySlug\<close> asks for the same page (\<open>limit: 100\<close>) and returns the
  first record whose \<open>sys.id\<close> equals the parameter, stamped; it returns null when no
  record has that identifier, whatever the records' \<open>slug\<close> fields are.
\<close>

theorem getHackathonBySlug_matches_identifier:
  assumes "getEntries_Hackathon (ctx_client c) hackathon_page_query = Inr items"
  shows "q_content_type hackathon_page_query = ''hackathon'' \<and>
         q_limit hackathon_page_query = Some 100 \<and>
         getHackathonBySlug c slug =
           Inr (map_option (stamp ''hackathon'') (find (\<lambda>item. sys_id item = slug) items)) \<and>
         ((\<forall>item\<in>set items. sys_id item \<noteq> slug) \<longrightarrow> getHackathonBySlug c slug = Inr None) \<and>
         (\<forall>h. getHackathonBySlug c slug = Inr (Some h) \<longrightarrow>
            sys_id h = slug \<and> (\<exists>item\<in>set items. sys_id item = slug \<and> h = stamp ''hackathon'' item))"
proof (intro conjI allI impI)
  show "q_content_type hackathon_page_query = ''hackathon''"
    and "q_limit hackathon_page_query = Some 100"
    by (simp_all add: hackathon_page_query_def)
next
  show "getHackathonBySlug c slug =
          Inr (map_option (stamp ''hackathon'') (find (\<lambda>item. sys_id item = slug) items))"
    by (rule getHackathonBySlug_fetched [OF assms])
next
  assume "\<forall>item\<in>set items. sys_id item \<noteq> slug"
  then have "find (\<lambda>item. sys_id item = slug) items = None"
    by (simp add: find_None_iff)
  then show "getHackathonBySlug c slug = Inr None"
    by (simp add: getHackathonBySlug_fetched [OF assms])
next
  fix h
  assume "getHackathonBySlug c slug = Inr (Some h)"
  then obtain item where found: "find (\<lambda>item. sys_id item = slug) items = Some item"
    and h: "h = stamp ''hackathon'' item"
    by (auto simp: getHackathonBySlug_fetched [OF assms])
  from found have "sys_id item = slug" and "item \<in> set items"
    by (auto simp: find_Some_iff)
  with h show "sys_id h = slug"
    by simp
  from \<open>sys_id item = slug\<close> \<open>item \<in> set items\<close> h
  show "\<exists>item\<in>set items. sys_id item = slug \<and> h = stamp ''hackathon'' item"
    by blast
qed

theorem getHackathonBySlug_matches_identifier_witness:
  "getEntries_Hackathon (ctx_client club_ctx) hackathon_page_query = Inr club_hackathons \<and>
   map (\<lambda>item. (sys_id item, hackathon_slug (item_fields item))) club_hackathons =
     [(''h1'', Some ''spring''), (''h2'', Some ''fall''), (''h3'', None)] \<and>
   getHackathonBySlug club_ctx ''spring'' = Inr None \<and>
   getHackathonBySlug club_ctx ''h1'' =
     Inr (Some (stamp ''hackathon'' (mk_hackathon ''h1'' ''Spring Hackathon'' (Some ''spring'') None)))"
proof -
  note fetched = club_hackathons_fetched
  note by_id = getHackathonBySlug_matches_identifier
    [OF fetched, THEN conjunct2, THEN conjunct2, THEN conjunct1]
  have "find (\<lambda>item. sys_id item = ''spring'') club_hackathons = None"
    and "find (\<lambda>item. sys_id item = ''h1'') club_hackathons =
           Some (mk_hackathon ''h1'' ''Spring Hackathon'' (Some ''spring'') None)"
    and "map (\<lambda>item. (sys_id item, hackathon_slug (item_fields item))) club_hackathons =
           [(''h1'', Some ''spring''), (''h2'', Some ''fall''), (''h3'', None)]"
    by (simp_all add: club_hackathons_def mk_hackathon_def)
  then show ?thesis
    by (simp add: fetched by_id)
qed

section \<open>Landing-page graphics: the image and graphic fields\<close>

lemma getLandingPageGraphicByTitle_fetched:
  assumes "\<not> falsy (CONTENTFUL_SPACE_ID (ctx_env c))"
    and "\<not> falsy (CONTENTFUL_ACCESS_TOKEN (ctx_env c))"
    and "getEntries_LandingPageGraphic (ctx_client c) (getLandingPageGraphicByTitle_query title)
           = Inr (item # rest)"
  shows "getLandingPageGraphicByTitle c title = Inr (Some (modifiedItem item))"
  using assms by (simp add: getLandingPageGraphicByTitle_def try_catch_def await_def)

lemma modifiedItem_image:
  "graphic_image (item_fields (modifiedItem item)) =
     (case graphic_image (item_fields item) of Some i \<Rightarrow> Some i | None \<Rightarrow> graphic (item_fields item))"
  by (cases "graphic (item_fields item)")
    (simp_all add: modifiedItem_def split: option.splits)

lemma modifiedItem_rest:
  "graphic (item_fields (modifiedItem item)) = graphic (item_fields item)"
  "graphic_title (item_fields (modifiedItem item)) = graphic_title (item_fields item)"
  "sys_id (modifiedItem item) = sys_id item"
  "contentTypeId (modifiedItem item) = Some ''landingPageGraphics''"
  by (simp_all add: modifiedItem_def)

lemma imageUrl_of_cases:
  "truthy (file_url (graphic_image (item_fields item)))
     \<Longrightarrow> imageUrl_of item = file_url (graphic_image (item_fields item))"
  "\<not> truthy (file_url (graphic_image (item_fields item))) \<Longrightarrow>
   truthy (file_url (graphic (item_fields item)))
     \<Longrightarrow> imageUrl_of item = file_url (graphic (item_fields item))"
  "\<not> truthy (file_url (graphic_image (item_fields item))) \<Longrightarrow>
   \<not> truthy (file_url (graphic (item_fields item)))
     \<Longrightarrow> imageUrl_of item = None"
  by (auto simp: imageUrl_of_def truthy_def file_url_def split: option.splits)

text \<open>
  C9, as amended. For the record \<open>getLandingPageGraphicByTitle\<close> matched: when the raw
  record has no image, the returned image is the raw graphic (so absent only when the
  graphic is absent too); when it has an image, the returned image is that image,
  whether or not a graphic is present. The canonical URL is the image's URL when that
  resolves, else the graphic's URL when that resolves, else there is none.
\<close>

theorem getLandingPageGraphicByTitle_image:
  assumes "\<not> falsy (CONTENTFUL_SPACE_ID (ctx_env c))"
    and "\<not> falsy (CONTENTFUL_ACCESS_TOKEN (ctx_env c))"
    and "getEntries_LandingPageGraphic (ctx_client c) (getLandingPageGraphicByTitle_query title)
           = Inr (item # rest)"
  shows "\<exists>res. getLandingPageGraphicByTitle c title = Inr (Some res) \<and>
           (graphic_image (item_fields item) = None \<longrightarrow>
              graphic_image (item_fields res) = graphic (item_fields item)) \<and>
           (graphic_image (item_fields item) \<noteq> None \<longrightarrow>
              graphic_image (item_fields res) = graphic_image (item_fields item)) \<and>
           (graphic_image (item_fields res) = None \<longleftrightarrow>
              graphic_image (item_fields item) = None \<and> graphic (item_fields item) = None) \<and>
           graphic (item_fields res) = graphic (item_fields item) \<and>
           (truthy (file_url (graphic_image (item_fields item))) \<longrightarrow>
              imageUrl_of item = file_url (graphic_image (item_fields item))) \<and>
           (\<not> truthy (file_url (graphic_image (item_fields item))) \<and>
            truthy (file_url (graphic (item_fields item))) \<longrightarrow>
              imageUrl_of item = file_url (graphic (item_fields item))) \<and>
           (\<not> truthy (file_url (graphic_image (item_fields item))) \<and>
            \<not> truthy (file_url (graphic (item_fields item))) \<longrightarrow>
              imageUrl_of item = None)"
proof (intro exI conjI impI)
  show "getLandingPageGraphicByTitle c title = Inr (Some (modifiedItem item))"
    by (rule getLandingPageGraphicByTitle_fetched [OF assms])
next
  assume "graphic_image (item_fields item) = None"
  then show "graphic_image (item_fields (modifiedItem item)) = graphic (item_fields item)"
    by (simp add: modifiedItem_image)
next
  assume "graphic_image (item_fields item) \<noteq> None"
  then show "graphic_image (item_fields (modifiedItem item)) = graphic_image (item_fields item)"
    by (auto simp: modifiedItem_image)
next
  show "(graphic_image (item_fields (modifiedItem item)) = None) =
          (graphic_image (item_fields item) = None \<and> graphic (item_fields item) = None)"
    by (simp add: modifiedItem_image split: option.splits)
next
  show "graphic (item_fields (modifiedItem item)) = graphic (item_fields item)"
    by (simp add: modifiedItem_rest)
next
  assume "truthy (file_url (graphic_image (item_fields item)))"
  then show "imageUrl_of item = file_url (graphic_image (item_fields item))"
    by (rule imageUrl_of_cases)
next
  assume "\<not> truthy (file_url (graphic_image (item_fields item))) \<and>
          truthy (file_url (graphic (item_fields item)))"
  then show "imageUrl_of item = file_url (graphic (item_fields item))"
    by (simp add: imageUrl_of_cases)
next
  assume "\<not> truthy (file_url (graphic_image (item_fields item))) \<and>
          \<not> truthy (file_url (graphic (item_fields item)))"
  then show "imageUrl_of item = None"
    by (simp add: imageUrl_of_cases)
qed

lemma club_graphic_fetched:
  "getEntries_LandingPageGraphic (ctx_client club_ctx) (getLandingPageGraphicByTitle_query ''Hero'')
     = Inr (mk_graphic ''Hero'' None (Some \<lparr>url = Some ''//img/hero.png'', asset_title = None\<rparr>) # [])"
  by (simp add: club_ctx_def store_client_def club_graphics_def)

lemma good_env_truthy:
  "\<not> falsy (CONTENTFUL_SPACE_ID good_env)" "\<not> falsy (CONTENTFUL_ACCESS_TOKEN good_env)"
  by (simp_all add: good_env_def falsy_def)

lemma club_env: "ctx_env club_ctx = good_env"
  by (simp add: club_ctx_def)

theorem getLandingPageGraphicByTitle_image_witness:
  "\<exists>res. getLandingPageGraphicByTitle club_ctx ''Hero'' = Inr (Some res) \<and>
         graphic_image (item_fields res) = Some \<lparr>url = Some ''//img/hero.png'', asset_title = None\<rparr> \<and>
         graphic (item_fields res) = Some \<lparr>url = Some ''//img/hero.png'', asset_title = None\<rparr>"
proof -
  have e1: "\<not> falsy (CONTENTFUL_SPACE_ID (ctx_env club_ctx))"
    and e2: "\<not> falsy (CONTENTFUL_ACCESS_TOKEN (ctx_env club_ctx))"
    by (simp_all add: club_env good_env_truthy)
  from getLandingPageGraphicByTitle_image [OF e1 e2 club_graphic_fetched]
  show ?thesis
    by (auto simp: mk_graphic_def)
qed

lemma unresolved_graphic_fetched:
  "getEntries_LandingPageGraphic (ctx_client unresolved_ctx)
     (getLandingPageGraphicByTitle_query ''Hero'') = Inr [unresolved_graphic]"
  by (simp add: unresolved_ctx_def store_client_def)

lemma unresolved_env: "ctx_env unresolved_ctx = good_env"
  by (simp add: unresolved_ctx_def)

text \<open>
  C9 as stated fails where it says the image field stays absent: a record with no image
  and a graphic that carries no file URL has no canonical URL, yet the returned image is
  that graphic.
\<close>

theorem image_stays_absent_counterexample:
  "\<not> truthy (file_url (graphic_image (item_fields unresolved_graphic))) \<and>
   \<not> truthy (file_url (graphic (item_fields unresolved_graphic))) \<and>
   getLandingPageGraphicByTitle unresolved_ctx ''Hero'' = Inr (Some (modifiedItem unresolved_graphic)) \<and>
   imageUrl_of unresolved_graphic = None \<and>
   graphic_image (item_fields (modifiedItem unresolved_graphic)) = Some no_asset \<and>
   \<not> truthy (file_url (graphic_image (item_fields blank_url_graphic))) \<and>
   \<not> truthy (file_url (graphic (item_fields blank_url_graphic))) \<and>
   imageUrl_of blank_url_graphic = None \<and>
   graphic_image (item_fields (modifiedItem blank_url_graphic)) =
     Some \<lparr>url = Some [], asset_title = None\<rparr>"
proof -
  have "getLandingPageGraphicByTitle unresolved_ctx ''Hero''
          = Inr (Some (modifiedItem unresolved_graphic))"
    by (rule getLandingPageGraphicByTitle_fetched)
      (simp_all add: unresolved_env good_env_truthy unresolved_graphic_fetched)
  then show ?thesis
    by (simp add: unresolved_graphic_def blank_url_graphic_def mk_graphic_def no_asset_def
        modifiedItem_def imageUrl_of_def truthy_def file_url_def)
qed

section \<open>Client initialisation\<close>

lemma validateEnv_set:
  assumes "penv_REDIS_URL p = Some r"
    and "penv_CONTENTFUL_SPACE_ID p = Some s"
    and "penv_CONTENTFUL_ACCESS_TOKEN p = Some t"
  shows "validateEnv p =
           Inr \<lparr>REDIS_URL = r, CONTENTFUL_SPACE_ID = s, CONTENTFUL_ACCESS_TOKEN = t\<rparr>"
  using assms by (simp add: validateEnv_def)

lemma validateEnv_unset:
  assumes "penv_CONTENTFUL_SPACE_ID p = None \<or> penv_CONTENTFUL_ACCESS_TOKEN p = None"
  shows "validateEnv p =
           Inl (Error (cross_mark @ '' Invalid environment variables: '' @
                       join '', '' (missingVars p) @ ''. Please check your .env file''))"
  using assms by (auto simp: validateEnv_def split: option.splits)

lemma load_module_unset:
  assumes "penv_CONTENTFUL_SPACE_ID p = None \<or> penv_CONTENTFUL_ACCESS_TOKEN p = None"
  shows "load_module p createClient =
           Inl (Error (cross_mark @ '' Invalid environment variables: '' @
                       join '', '' (missingVars p) @ ''. Please check your .env file''))"
  by (simp add: load_module_def await_def validateEnv_unset [OF assms])

lemma init_client_empty:
  assumes "falsy (CONTENTFUL_SPACE_ID e) \<or> falsy (CONTENTFUL_ACCESS_TOKEN e)"
  shows "init_client e createClient =
           (dummy_client,
            [Warn missing_warning, Warn missing_warning,
             ErrorLog ''Error initializing Contentful client:''
               (Error ''Contentful credentials are missing'')])"
  using assms by (auto simp: init_client_def Let_def)

lemma init_client_throws:
  assumes "\<not> falsy (CONTENTFUL_SPACE_ID e)" and "\<not> falsy (CONTENTFUL_ACCESS_TOKEN e)"
    and "createClient (CONTENTFUL_SPACE_ID e) (CONTENTFUL_ACCESS_TOKEN e) = Inl err"
  shows "init_client e createClient =
           (dummy_client, [ErrorLog ''Error initializing Contentful client:'' err])"
  using assms by (simp add: init_client_def Let_def)

lemma load_module_empty:
  assumes "penv_REDIS_URL p = Some r"
    and "penv_CONTENTFUL_SPACE_ID p = Some s"
    and "penv_CONTENTFUL_ACCESS_TOKEN p = Some t"
    and "s = [] \<or> t = []"
  shows "load_module p createClient =
           Inr (\<lparr>ctx_env = \<lparr>REDIS_URL = r, CONTENTFUL_SPACE_ID = s,
                             CONTENTFUL_ACCESS_TOKEN = t\<rparr>,
                 ctx_client = dummy_client\<rparr>,
                [Warn missing_warning, Warn missing_warning,
                 ErrorLog ''Error initializing Contentful client:''
                   (Error ''Contentful credentials are missing'')])"
proof -
  have "falsy (CONTENTFUL_SPACE_ID \<lparr>REDIS_URL = r, CONTENTFUL_SPACE_ID = s,
                                     CONTENTFUL_ACCESS_TOKEN = t\<rparr>) \<or>
        falsy (CONTENTFUL_ACCESS_TOKEN \<lparr>REDIS_URL = r, CONTENTFUL_SPACE_ID = s,
                                         CONTENTFUL_ACCESS_TOKEN = t\<rparr>)"
    using assms(4) by (simp add: falsy_def)
  then show ?thesis
    by (simp add: load_module_def await_def validateEnv_set [OF assms(1-3)] init_client_empty)
qed

lemma load_module_throws:
  assumes "penv_REDIS_URL p = Some r"
    and "penv_CONTENTFUL_SPACE_ID p = Some s"
    and "penv_CONTENTFUL_ACCESS_TOKEN p = Some t"
    and "s \<noteq> []" and "t \<noteq> []"
    and "createClient s t = Inl err"
  shows "load_module p createClient =
           Inr (\<lparr>ctx_env = \<lparr>REDIS_URL = r, CONTENTFUL_SPACE_ID = s,
                             CONTENTFUL_ACCESS_TOKEN = t\<rparr>,
                 ctx_client = dummy_client\<rparr>,
                [ErrorLog ''Error initializing Contentful client:'' err])"
proof -
  have "init_client \<lparr>REDIS_URL = r, CONTENTFUL_SPACE_ID = s, CONTENTFUL_ACCESS_TOKEN = t\<rparr>
          createClient =
        (dummy_client, [ErrorLog ''Error initializing Contentful client:'' err])"
    by (rule init_client_throws) (simp_all add: falsy_def assms(4-6))
  then show ?thesis
    by (simp add: load_module_def await_def validateEnv_set [OF assms(1-3)])
qed

lemma dummy_getEntries:
  "getEntries_BlogPost dummy_client q = Inr []"
  "getEntries_Meeting dummy_client q = Inr []"
  "getEntries_ParallaxBanner dummy_client q = Inr []"
  "getEntries_EboardMember dummy_client q = Inr []"
  "getEntries_Hackathon dummy_client q = Inr []"
  "getEntries_LandingPageGraphic dummy_client q = Inr []"
  by (simp_all add: dummy_client_def)

lemma dummy_list_resolvers:
  assumes "ctx_client c = dummy_client"
  shows "getAllPosts c = Inr []"
    and "getAllMeetings gt c = Inr []"
    and "getUpcomingMeetings c = Inr []"
    and "getParallaxBanners c = Inr []"
    and "getCurrentEboardMembers c = Inr []"
    and "getPastEboardMembers c = Inr []"
    and "getAllHackathons c = Inr []"
    and "getHackathonsByStatus c st = Inr []"
    and "getAllLandingPageGraphics c = Inr []"
  unfolding list_resolver_defs
  by (simp_all add: assms dummy_getEntries try_catch_def await_def)

lemma dummy_single_resolvers:
  assumes "ctx_client c = dummy_client"
  shows "getPostBySlug c slug = Inr None"
    and "getHackathonBySlug c slug = Inr None"
    and "getLandingPageGraphicByTitle c title = Inr None"
  unfolding single_resolver_defs
  by (simp_all add: assms dummy_getEntries try_catch_def await_def)

text \<open>
  C2. What loading the modules does with the credentials. When the three variables are
  set and a credential is the empty string, the client's guard warns twice and throws, and
  the catch logs the error and installs the dummy client; when the constructor throws,
  the catch logs that error and installs the dummy client. The dummy client resolves
  every query with no items, and over it every resolver returns the empty array or null.
  When a credential is not set, \<open>validateEnv\<close> throws while the environment module
  loads, and loading fails with that error: the fallback that the client's guard
  prepares for missing variables is never reached.
\<close>

theorem client_initialisation_outcomes:
  "(penv_REDIS_URL p = Some r \<and> penv_CONTENTFUL_SPACE_ID p = Some s \<and>
    penv_CONTENTFUL_ACCESS_TOKEN p = Some t \<and> (s = [] \<or> t = [])
    \<longrightarrow> load_module p createClient =
          Inr (\<lparr>ctx_env = \<lparr>REDIS_URL = r, CONTENTFUL_SPACE_ID = s,
                            CONTENTFUL_ACCESS_TOKEN = t\<rparr>,
                ctx_client = dummy_client\<rparr>,
               [Warn missing_warning, Warn missing_warning,
                ErrorLog ''Error initializing Contentful client:''
                  (Error ''Contentful credentials are missing'')])) \<and>
   (penv_REDIS_URL p = Some r \<and> penv_CONTENTFUL_SPACE_ID p = Some s \<and>
    penv_CONTENTFUL_ACCESS_TOKEN p = Some t \<and> s \<noteq> [] \<and> t \<noteq> [] \<and>
    createClient s t = Inl err
    \<longrightarrow> load_module p createClient =
          Inr (\<lparr>ctx_env = \<lparr>REDIS_URL = r, CONTENTFUL_SPACE_ID = s,
                            CONTENTFUL_ACCESS_TOKEN = t\<rparr>,
                ctx_client = dummy_client\<rparr>,
               [ErrorLog ''Error initializing Contentful client:'' err])) \<and>
   (getEntries_BlogPost dummy_client q = Inr [] \<and>
    getEntries_Meeting dummy_client q = Inr [] \<and>
    getEntries_ParallaxBanner dummy_client q = Inr [] \<and>
    getEntries_EboardMember dummy_client q = Inr [] \<and>
    getEntries_Hackathon dummy_client q = Inr [] \<and>
    getEntries_LandingPageGraphic dummy_client q = Inr []) \<and>
   (ctx_client c = dummy_client
    \<longrightarrow> getAllPosts c = Inr [] \<and>
        getAllMeetings gt c = Inr [] \<and>
        getUpcomingMeetings c = Inr [] \<and>
        getCurrentEboardMembers c = Inr [] \<and>
        getPastEboardMembers c = Inr [] \<and>
        getAllHackathons c = Inr [] \<and>
        getHackathonsByStatus c st = Inr [] \<and>
        getAllLandingPageGraphics c = Inr [] \<and>
        getParallaxBanners c = Inr [] \<and>
        getPostBySlug c slug = Inr None \<and>
        getHackathonBySlug c slug = Inr None \<and>
        getLandingPageGraphicByTitle c title = Inr None) \<and>
   (penv_CONTENTFUL_SPACE_ID p = None \<or> penv_CONTENTFUL_ACCESS_TOKEN p = None
    \<longrightarrow> load_module p createClient =
          Inl (Error (cross_mark @ '' Invalid environment variables: '' @
                      join '', '' (missingVars p) @ ''. Please check your .env file'')))"
proof (intro conjI impI)
  assume "penv_REDIS_URL p = Some r \<and> penv_CONTENTFUL_SPACE_ID p = Some s \<and>
    penv_CONTENTFUL_ACCESS_TOKEN p = Some t \<and> (s = [] \<or> t = [])"
  then show "load_module p createClient =
          Inr (\<lparr>ctx_env = \<lparr>REDIS_URL = r, CONTENTFUL_SPACE_ID = s,
                            CONTENTFUL_ACCESS_TOKEN = t\<rparr>,
                ctx_client = dummy_client\<rparr>,
               [Warn missing_warning, Warn missing_warning,
                ErrorLog ''Error initializing Contentful client:''
                  (Error ''Contentful credentials are missing'')])"
    by (elim conjE) (rule load_module_empty)
next
  assume "penv_REDIS_URL p = Some r \<and> penv_CONTENTFUL_SPACE_ID p = Some s \<and>
    penv_CONTENTFUL_ACCESS_TOKEN p = Some t \<and> s \<noteq> [] \<and> t \<noteq> [] \<and>
    createClient s t = Inl err"
  then show "load_module p createClient =
          Inr (\<lparr>ctx_env = \<lparr>REDIS_URL = r, CONTENTFUL_SPACE_ID = s,
                            CONTENTFUL_ACCESS_TOKEN = t\<rparr>,
                ctx_client = dummy_client\<rparr>,
               [ErrorLog ''Error initializing Contentful client:'' err])"
    by (elim conjE) (rule load_module_throws)
next
  assume "penv_CONTENTFUL_SPACE_ID p = None \<or> penv_CONTENTFUL_ACCESS_TOKEN p = None"
  then show "load_module p createClient =
          Inl (Error (cross_mark @ '' Invalid environment variables: '' @
                      join '', '' (missingVars p) @ ''. Please check your .env file''))"
    by (rule load_module_unset)
qed (simp_all only: dummy_getEntries dummy_list_resolvers dummy_single_resolvers)

theorem client_initialisation_outcomes_witness:
  "load_module empty_token_penv ok_createClient =
     Inr (\<lparr>ctx_env = \<lparr>REDIS_URL = ''redis://r'', CONTENTFUL_SPACE_ID = ''space'',
                       CONTENTFUL_ACCESS_TOKEN = []\<rparr>,
           ctx_client = dummy_client\<rparr>,
          [Warn missing_warning, Warn missing_warning,
           ErrorLog ''Error initializing Contentful client:''
             (Error ''Contentful credentials are missing'')]) \<and>
   load_module good_penv throwing_createClient =
     Inr (\<lparr>ctx_env = \<lparr>REDIS_URL = ''redis://r'', CONTENTFUL_SPACE_ID = ''space'',
                       CONTENTFUL_ACCESS_TOKEN = ''token''\<rparr>,
           ctx_client = dummy_client\<rparr>,
          [ErrorLog ''Error initializing Contentful client:''
             (Error ''Expected parameter accessToken'')]) \<and>
   getAllPosts \<lparr>ctx_env = good_env, ctx_client = dummy_client\<rparr> = Inr [] \<and>
   getHackathonBySlug \<lparr>ctx_env = good_env, ctx_client = dummy_client\<rparr> ''h1'' = Inr None \<and>
   penv_CONTENTFUL_SPACE_ID missing_space_penv = None \<and>
   missingVars missing_space_penv = [''CONTENTFUL_SPACE_ID''] \<and>
   load_module missing_space_penv ok_createClient =
     Inl (Error (cross_mark @
       '' Invalid environment variables: CONTENTFUL_SPACE_ID. Please check your .env file''))"
proof -
  note empty = client_initialisation_outcomes
    [where p = empty_token_penv and createClient = ok_createClient and r = "''redis://r''"
       and s = "''space''" and t = "[]", THEN conjunct1, rule_format]
  note throws = client_initialisation_outcomes
    [where p = good_penv and createClient = throwing_createClient and r = "''redis://r''"
       and s = "''space''" and t = "''token''" and err = "Error ''Expected parameter accessToken''",
     THEN conjunct2, THEN conjunct1, rule_format]
  note resolvers = client_initialisation_outcomes
    [where c = "\<lparr>ctx_env = good_env, ctx_client = dummy_client\<rparr>" and slug = "''h1''",
     THEN conjunct2, THEN conjunct2, THEN conjunct2, THEN conjunct1, rule_format]
  note unset = client_initialisation_outcomes
    [where p = missing_space_penv and createClient = ok_createClient,
     THEN conjunct2, THEN conjunct2, THEN conjunct2, THEN conjunct2, rule_format]
  have missing: "penv_CONTENTFUL_SPACE_ID missing_space_penv = None"
    and vars: "missingVars missing_space_penv = [''CONTENTFUL_SPACE_ID'']"
    by (simp_all add: missing_space_penv_def missingVars_def)
  have a: "load_module empty_token_penv ok_createClient =
     Inr (\<lparr>ctx_env = \<lparr>REDIS_URL = ''redis://r'', CONTENTFUL_SPACE_ID = ''space'',
                       CONTENTFUL_ACCESS_TOKEN = []\<rparr>,
           ctx_client = dummy_client\<rparr>,
          [Warn missing_warning, Warn missing_warning,
           ErrorLog ''Error initializing Contentful client:''
             (Error ''Contentful credentials are missing'')])"
    by (rule empty) (simp add: empty_token_penv_def)
  have b: "load_module good_penv throwing_createClient =
     Inr (\<lparr>ctx_env = \<lparr>REDIS_URL = ''redis://r'', CONTENTFUL_SPACE_ID = ''space'',
                       CONTENTFUL_ACCESS_TOKEN = ''token''\<rparr>,
           ctx_client = dummy_client\<rparr>,
          [ErrorLog ''Error initializing Contentful client:''
             (Error ''Expected parameter accessToken'')])"
    by (rule throws) (simp add: good_penv_def throwing_createClient_def)
  have c: "getAllPosts \<lparr>ctx_env = good_env, ctx_client = dummy_client\<rparr> = Inr []"
    and d: "getHackathonBySlug \<lparr>ctx_env = good_env, ctx_client = dummy_client\<rparr> ''h1'' = Inr None"
    using resolvers by simp_all
  have e: "load_module missing_space_penv ok_createClient =
     Inl (Error (cross_mark @
       '' Invalid environment variables: CONTENTFUL_SPACE_ID. Please check your .env file''))"
    using unset [OF disjI1 [OF missing]] by (simp add: vars)
  from a b c d missing vars e show ?thesis
    by (intro conjI)
qed

section \<open>The statistics overview\<close>

lemma stats_of_all_resolved:
  "stats_of now (Inr posts) (Inr ms) (Inr cur) (Inr pst) (Inr hs) (Inr gs) (Inr bs) =
     Content \<lparr>overview = ''Contentful CMS Statistics'',
              counts = \<lparr>blogPosts = length posts, meetings = length ms,
                         currentEboardMembers = length cur, pastEboardMembers = length pst,
                         hackathons = length hs, landingPageGraphics = length gs,
                         parallaxBanners = length bs\<rparr>,
              lastUpdated = now\<rparr>"
  by (simp add: stats_of_def await_def)

lemma await_Inl [simp]: "await (Inl e) k = Inl e"
  by (simp add: await_def)

lemma await_Inr [simp]: "await (Inr v) k = k v"
  by (simp add: await_def)

lemma await_rejects:
  assumes "\<And>v. \<exists>e. k v = Inl e"
  shows "\<exists>e. await p k = Inl e"
  using assms by (cases p) simp_all

lemma stats_of_rejected:
  assumes "(\<exists>e. ra = Inl e) \<or> (\<exists>e. rb = Inl e) \<or> (\<exists>e. rc = Inl e) \<or> (\<exists>e. rd = Inl e) \<or>
           (\<exists>e. re = Inl e) \<or> (\<exists>e. rf = Inl e) \<or> (\<exists>e. rg = Inl e)"
  shows "\<exists>e. stats_of now ra rb rc rd re rf rg =
               ErrorText (''Error fetching Contentful statistics: '' @ error_message e)"
proof -
  have "\<exists>e. await ra (\<lambda>posts. await rb (\<lambda>meetings. await rc (\<lambda>currentEboard.
        await rd (\<lambda>pastEboard. await re (\<lambda>hackathons. await rf (\<lambda>graphics.
        await rg (\<lambda>banners.
          Inr \<lparr>overview = ''Contentful CMS Statistics'',
               counts = \<lparr>blogPosts = length posts,
                          meetings = length meetings,
                          currentEboardMembers = length currentEboard,
                          pastEboardMembers = length pastEboard,
                          hackathons = length hackathons,
                          landingPageGraphics = length graphics,
                          parallaxBanners = length banners\<rparr>,
               lastUpdated = now\<rparr>))))))) = Inl e"
    using assms
    by (cases ra; cases rb; cases rc; cases rd; cases re; cases rf; cases rg) simp_all
  then show ?thesis
    by (auto simp: stats_of_def)
qed

text \<open>
  C8. The statistics overview calls the seven full-listing resolvers (posts, meetings,
  current and past eboard members, hackathons, graphics, banners) and reports, for each,
  the length of what that resolver returned, with the timestamp. Over any seven call
  results, if one of them rejected the response is a single error text and no counts;
  with the module's resolvers it is always the counts.
\<close>

theorem contentful_stats_counts:
  "(getAllPosts c = Inr posts \<and> getAllMeetings gt c = Inr ms \<and>
    getCurrentEboardMembers c = Inr cur \<and> getPastEboardMembers c = Inr pst \<and>
    getAllHackathons c = Inr hs \<and> getAllLandingPageGraphics c = Inr gs \<and>
    getParallaxBanners c = Inr bs
    \<longrightarrow> contentful_stats gt c now =
          Content \<lparr>overview = ''Contentful CMS Statistics'',
                   counts = \<lparr>blogPosts = length posts, meetings = length ms,
                              currentEboardMembers = length cur,
                              pastEboardMembers = length pst,
                              hackathons = length hs, landingPageGraphics = length gs,
                              parallaxBanners = length bs\<rparr>,
                   lastUpdated = now\<rparr>) \<and>
   ((\<exists>e. ra = Inl e) \<or> (\<exists>e. rb = Inl e) \<or> (\<exists>e. rc = Inl e) \<or> (\<exists>e. rd = Inl e) \<or>
    (\<exists>e. re = Inl e) \<or> (\<exists>e. rf = Inl e) \<or> (\<exists>e. rg = Inl e)
    \<longrightarrow> (\<exists>e. stats_of now ra rb rc rd re rf rg =
               ErrorText (''Error fetching Contentful statistics: '' @ error_message e))) \<and>
   (\<exists>v. contentful_stats gt c now = Content v)"
proof (intro conjI impI)
  assume "getAllPosts c = Inr posts \<and> getAllMeetings gt c = Inr ms \<and>
    getCurrentEboardMembers c = Inr cur \<and> getPastEboardMembers c = Inr pst \<and>
    getAllHackathons c = Inr hs \<and> getAllLandingPageGraphics c = Inr gs \<and>
    getParallaxBanners c = Inr bs"
  then show "contentful_stats gt c now =
          Content \<lparr>overview = ''Contentful CMS Statistics'',
                   counts = \<lparr>blogPosts = length posts, meetings = length ms,
                              currentEboardMembers = length cur,
                              pastEboardMembers = length pst,
                              hackathons = length hs, landingPageGraphics = length gs,
                              parallaxBanners = length bs\<rparr>,
                   lastUpdated = now\<rparr>"
    by (simp add: contentful_stats_def stats_of_all_resolved)
next
  assume "(\<exists>e. ra = Inl e) \<or> (\<exists>e. rb = Inl e) \<or> (\<exists>e. rc = Inl e) \<or> (\<exists>e. rd = Inl e) \<or>
    (\<exists>e. re = Inl e) \<or> (\<exists>e. rf = Inl e) \<or> (\<exists>e. rg = Inl e)"
  then show "\<exists>e. stats_of now ra rb rc rd re rf rg =
               ErrorText (''Error fetching Contentful statistics: '' @ error_message e)"
    by (rule stats_of_rejected)
next
  obtain posts ms cur pst hs gs bs
    where "getAllPosts c = Inr posts" "getAllMeetings gt c = Inr ms"
      "getCurrentEboardMembers c = Inr cur" "getPastEboardMembers c = Inr pst"
      "getAllHackathons c = Inr hs" "getAllLandingPageGraphics c = Inr gs"
      "getParallaxBanners c = Inr bs"
    using list_resolvers_total(1) [of c] list_resolvers_total(2) [of gt c]
      list_resolvers_total(5) [of c] list_resolvers_total(6) [of c]
      list_resolvers_total(7) [of c] list_resolvers_total(9) [of c]
      list_resolvers_total(4) [of c]
    by blast
  then show "\<exists>v. contentful_stats gt c now = Content v"
    by (simp add: contentful_stats_def stats_of_all_resolved)
qed

lemma club_listings:
  "getAllPosts club_ctx = Inr (map (stamp ''blogPost'') club_posts)"
  "getAllMeetings simple_getTime club_ctx =
     Inr (map (stamp ''meeting'')
            [mk_meeting ''m2'' ''Planning'' ''2024-10'' ''Hackathon logistics'',
             mk_meeting ''m1'' ''Kickoff'' ''2024'' ''First meeting''])"
  "getCurrentEboardMembers club_ctx =
     Inr (map (stamp ''eboardMember'') [mk_member ''e2'' ''Ada'' ''President'' CurrentMember])"
  "getPastEboardMembers club_ctx =
     Inr (map (stamp ''eboardMember'') [mk_member ''e1'' ''Grace'' ''Hackathon Chair'' PastMember])"
  "getAllHackathons club_ctx = Inr (map (stamp ''hackathon'') club_hackathons)"
  "getAllLandingPageGraphics club_ctx = Inr (map (stamp ''landingPageGraphics'') club_graphics)"
  "getParallaxBanners club_ctx = Inr (map (stamp ''parallaxBanner'') club_banners)"
  unfolding list_resolver_defs
  by (simp_all add: club_ctx_def store_client_def try_catch_def query_defs
      club_meetings_def club_members_def mk_member_def mk_meeting_def simple_getTime_def
      memberType_string_def)

theorem contentful_stats_counts_witness:
  "contentful_stats simple_getTime club_ctx ''2026-01-01T00:00:00.000Z'' =
     Content \<lparr>overview = ''Contentful CMS Statistics'',
              counts = \<lparr>blogPosts = 3, meetings = 2, currentEboardMembers = 1,
                         pastEboardMembers = 1, hackathons = 3, landingPageGraphics = 1,
                         parallaxBanners = 1\<rparr>,
              lastUpdated = ''2026-01-01T00:00:00.000Z''\<rparr> \<and>
   (\<exists>e. stats_of ''2026-01-01T00:00:00.000Z'' (Inr []) (Inr []) (Inl (Error ''boom'')) (Inr [])
          (Inr []) (Inr []) (Inr []) =
        ErrorText (''Error fetching Contentful statistics: '' @ error_message e))"
proof -
  note stats = contentful_stats_counts [where c = club_ctx and gt = simple_getTime
      and now = "''2026-01-01T00:00:00.000Z''"
      and ra = "Inr []" and rb = "Inr []" and rc = "Inl (Error ''boom'')" and rd = "Inr []"
      and re = "Inr []" and rf = "Inr []" and rg = "Inr []"]
  have counts: "contentful_stats simple_getTime club_ctx ''2026-01-01T00:00:00.000Z'' =
     Content \<lparr>overview = ''Contentful CMS Statistics'',
              counts = \<lparr>blogPosts = 3, meetings = 2, currentEboardMembers = 1,
                         pastEboardMembers = 1, hackathons = 3, landingPageGraphics = 1,
                         parallaxBanners = 1\<rparr>,
              lastUpdated = ''2026-01-01T00:00:00.000Z''\<rparr>"
    using stats [THEN conjunct1, rule_format, OF conjI [OF club_listings(1) conjI [OF club_listings(2)
      conjI [OF club_listings(3) conjI [OF club_listings(4) conjI [OF club_listings(5)
      conjI [OF club_listings(6) club_listings(7)]]]]]]]
    by (simp add: club_posts_def club_hackathons_def club_graphics_def club_banners_def)
  have "\<exists>e. stats_of ''2026-01-01T00:00:00.000Z'' (Inr []) (Inr []) (Inl (Error ''boom'')) (Inr [])
          (Inr []) (Inr []) (Inr []) =
        ErrorText (''Error fetching Contentful statistics: '' @ error_message e)"
    using stats [THEN conjunct2, THEN conjunct1] by blast
  with counts show ?thesis
    by (rule conjI)
qed

section \<open>The search tool\<close>

lemma startsWith_iff: "startsWith str q \<longleftrightarrow> (\<exists>after. str = q @ after)"
  by (induction str q rule: startsWith.induct) auto

lemma js_includes_iff: "js_includes str q \<longleftrightarrow> (\<exists>before after. str = before @ q @ after)"
proof (induction str)
  case Nil
  show ?case by simp
next
  case (Cons t ts)
  show ?case
    by (auto simp: Cons startsWith_iff Cons_eq_append_conv)
qed

lemma matchesQuery_iff: "matchesQuery lc query str \<longleftrightarrow> contains_ci lc str query"
  by (simp add: matchesQuery_def contains_ci_def js_includes_iff)

lemma slice0_nonneg: "0 \<le> e \<Longrightarrow> slice0 arr e = take (nat e) arr"
  by (simp add: slice0_def Let_def min_def)

lemma foldl_sum_lengths:
  "foldl (\<lambda>sum kv. sum + length (snd kv)) n kvs = n + sum_list (map (\<lambda>kv. length (snd kv)) kvs)"
  by (induction kvs arbitrary: n) simp_all

lemma search_body_resolved:
  assumes "getAllPosts c = Inr posts"
    and "getAllMeetings gt c = Inr ms"
    and "getCurrentEboardMembers c = Inr cur"
    and "getPastEboardMembers c = Inr pst"
    and "getAllHackathons c = Inr hs"
    and "R =
           (if ''blogPost'' \<in> set (typesToSearch_of cts)
            then [(''blogPosts'',
                   map post_hit
                     (slice0 (filter (post_matches lc q) posts) (limit_or_default la)))]
            else []) @
           (if ''meeting'' \<in> set (typesToSearch_of cts)
            then [(''meetings'',
                   map meeting_hit
                     (slice0 (filter (meeting_matches lc q) ms) (limit_or_default la)))]
            else []) @
           (if ''eboardMember'' \<in> set (typesToSearch_of cts)
            then [(''eboardMembers'',
                   map member_hit
                     (slice0 (filter (member_matches lc q) (cur @ pst)) (limit_or_default la)))]
            else []) @
           (if ''hackathon'' \<in> set (typesToSearch_of cts)
            then [(''hackathons'',
                   map hackathon_hit
                     (slice0 (filter (hackathon_matches lc q) hs) (limit_or_default la)))]
            else [])"
  shows "search_body lc gt c q cts la =
           Inr \<lparr>searchQuery = q,
                contentTypes = typesToSearch_of cts,
                totalResults = sum_list (map (\<lambda>kv. length (snd kv)) R),
                results = R\<rparr>"
  unfolding assms(6)
  by (simp add: search_body_def assms(1-5) Let_def foldl_sum_lengths del: filter_append)

lemma post_matches_iff:
  "post_matches lc q =
     (\<lambda>post. contains_ci lc (post_title (item_fields post)) q \<or>
             contains_ci lc (post_excerpt (item_fields post)) q \<or>
             contains_ci lc (post_author (item_fields post)) q)"
  by (simp add: fun_eq_iff post_matches_def matchesQuery_iff)

lemma meeting_matches_iff:
  "meeting_matches lc q =
     (\<lambda>meeting. contains_ci lc (meeting_title (item_fields meeting)) q \<or>
                contains_ci lc (meeting_description (item_fields meeting)) q)"
  by (simp add: fun_eq_iff meeting_matches_def matchesQuery_iff)

lemma member_matches_iff:
  "member_matches lc q =
     (\<lambda>member. contains_ci lc (member_name (item_fields member)) q \<or>
               contains_ci lc (member_position (item_fields member)) q \<or>
               contains_ci lc (member_description (item_fields member)) q)"
  by (simp add: fun_eq_iff member_matches_def matchesQuery_iff)

lemma hackathon_matches_iff:
  "hackathon_matches lc q =
     (\<lambda>hackathon. contains_ci lc (hackathon_title (item_fields hackathon)) q \<or>
                  contains_ci lc (hackathon_description (item_fields hackathon)) q)"
  by (simp add: fun_eq_iff hackathon_matches_def matchesQuery_iff)

lemma length_slice0_le: "0 \<le> e \<Longrightarrow> int (length (slice0 arr e)) \<le> e"
  by (simp add: slice0_def Let_def)

lemma slice0_negative: "e < 0 \<Longrightarrow> slice0 arr e = take (length arr - nat (- e)) arr"
  by (auto simp: slice0_def Let_def max_def intro!: arg_cong2 [where f = take])

lemma limit_results_positive: "0 < l \<Longrightarrow> limit_results arr (Some l) = slice0 arr l"
  by (simp add: limit_results_def)

lemma limit_results_negative: "l < 0 \<Longrightarrow> limit_results arr (Some l) = arr"
  by (simp add: limit_results_def)

lemma search_content_resolved:
  assumes "search_body lc gt c q cts la = Inr v"
  shows "search_content lc gt c q cts la = Content v"
  using assms by (simp add: search_content_def)

text \<open>
  C5. What the search keeps, for every limit. The limit is 5 when none is given. With
  the listings the resolvers return, the result under the key of every type in the
  searched list is \<open>slice(0, limit)\<close> of the records, in listing order, with a searched
  field containing the query as a case-insensitive substring (title, excerpt or author
  for posts; title or description for meetings; name, position or description for
  members, current before past; title or description for hackathons), and the total is
  the sum of the lengths of the results. For a limit that is not negative the slice is
  the first \<open>limit\<close> matches, so at most \<open>limit\<close> are kept under each key, and for a
  positive limit it is what the per-type query tools keep. For a negative limit the
  slice is all matches but the last \<open>-limit\<close>, where the query tools keep them all.
\<close>

theorem search_matching_limit_total:
  assumes "getAllPosts c = Inr posts"
    and "getAllMeetings gt c = Inr ms"
    and "getCurrentEboardMembers c = Inr cur"
    and "getPastEboardMembers c = Inr pst"
    and "getAllHackathons c = Inr hs"
  shows "limit_or_default None = 5 \<and>
         (\<exists>v. search_content lc gt c q cts la = Content v \<and>
           contentTypes v = typesToSearch_of cts \<and>
           (''blogPost'' \<in> set (contentTypes v) \<longrightarrow>
              map_of (results v) ''blogPosts'' =
                Some (map post_hit (slice0
                  (filter (\<lambda>post. contains_ci lc (post_title (item_fields post)) q \<or>
                                  contains_ci lc (post_excerpt (item_fields post)) q \<or>
                                  contains_ci lc (post_author (item_fields post)) q) posts)
                  (limit_or_default la)))) \<and>
           (''meeting'' \<in> set (contentTypes v) \<longrightarrow>
              map_of (results v) ''meetings'' =
                Some (map meeting_hit (slice0
                  (filter (\<lambda>meeting. contains_ci lc (meeting_title (item_fields meeting)) q \<or>
                                     contains_ci lc (meeting_description (item_fields meeting)) q)
                     ms)
                  (limit_or_default la)))) \<and>
           (''eboardMember'' \<in> set (contentTypes v) \<longrightarrow>
              map_of (results v) ''eboardMembers'' =
                Some (map member_hit (slice0
                  (filter (\<lambda>member. contains_ci lc (member_name (item_fields member)) q \<or>
                                    contains_ci lc (member_position (item_fields member)) q \<or>
                                    contains_ci lc (member_description (item_fields member)) q)
                     (cur @ pst))
                  (limit_or_default la)))) \<and>
           (''hackathon'' \<in> set (contentTypes v) \<longrightarrow>
              map_of (results v) ''hackathons'' =
                Some (map hackathon_hit (slice0
                  (filter (\<lambda>hackathon. contains_ci lc (hackathon_title (item_fields hackathon)) q \<or>
                                       contains_ci lc (hackathon_description (item_fields hackathon)) q)
                     hs)
                  (limit_or_default la)))) \<and>
           totalResults v = sum_list (map (\<lambda>kv. length (snd kv)) (results v)) \<and>
           (0 \<le> limit_or_default la \<longrightarrow> kept_at_most (limit_or_default la) v)) \<and>
         (0 \<le> limit_or_default la \<longrightarrow>
            slice0 arr (limit_or_default la) = take (nat (limit_or_default la)) arr) \<and>
         (0 < limit_or_default la \<and> la \<noteq> None \<longrightarrow>
            limit_results arr la = slice0 arr (limit_or_default la)) \<and>
         (limit_or_default la < 0 \<longrightarrow>
            slice0 arr (limit_or_default la) =
              take (length arr - nat (- limit_or_default la)) arr \<and>
            limit_results arr la = arr)"
    (is "_ \<and> ?searched \<and> ?nonneg \<and> ?positive \<and> ?negative")
proof -
  define R where "R =
           (if ''blogPost'' \<in> set (typesToSearch_of cts)
            then [(''blogPosts'',
                   map post_hit
                     (slice0 (filter (post_matches lc q) posts) (limit_or_default la)))]
            else []) @
           (if ''meeting'' \<in> set (typesToSearch_of cts)
            then [(''meetings'',
                   map meeting_hit
                     (slice0 (filter (meeting_matches lc q) ms) (limit_or_default la)))]
            else []) @
           (if ''eboardMember'' \<in> set (typesToSearch_of cts)
            then [(''eboardMembers'',
                   map member_hit
                     (slice0 (filter (member_matches lc q) (cur @ pst)) (limit_or_default la)))]
            else []) @
           (if ''hackathon'' \<in> set (typesToSearch_of cts)
            then [(''hackathons'',
                   map hackathon_hit
                     (slice0 (filter (hackathon_matches lc q) hs) (limit_or_default la)))]
            else [])"
  define v where "v = \<lparr>searchQuery = q, contentTypes = typesToSearch_of cts,
                        totalResults = sum_list (map (\<lambda>kv. length (snd kv)) R),
                        results = R\<rparr>"
  have body: "search_body lc gt c q cts la = Inr v"
    unfolding v_def by (rule search_body_resolved [OF assms(1-5) R_def])
  have types: "contentTypes v = typesToSearch_of cts"
    and total: "totalResults v = sum_list (map (\<lambda>kv. length (snd kv)) (results v))"
    and res: "results v = R"
    by (simp_all add: v_def)
  have ?searched
  proof (rule exI [of _ v], intro conjI impI)
    show "search_content lc gt c q cts la = Content v"
      by (rule search_content_resolved [OF body])
    show "contentTypes v = typesToSearch_of cts"
      by (rule types)
    show "totalResults v = sum_list (map (\<lambda>kv. length (snd kv)) (results v))"
      by (rule total)
  next
    assume "0 \<le> limit_or_default la"
    then show "kept_at_most (limit_or_default la) v"
      by (simp add: kept_at_most_def res R_def length_slice0_le del: filter_append)
  next
    assume "''blogPost'' \<in> set (contentTypes v)"
    then show "map_of (results v) ''blogPosts'' =
                Some (map post_hit (slice0
                  (filter (\<lambda>post. contains_ci lc (post_title (item_fields post)) q \<or>
                                  contains_ci lc (post_excerpt (item_fields post)) q \<or>
                                  contains_ci lc (post_author (item_fields post)) q) posts)
                  (limit_or_default la)))"
      by (simp add: res R_def types post_matches_iff)
  next
    assume "''meeting'' \<in> set (contentTypes v)"
    then show "map_of (results v) ''meetings'' =
                Some (map meeting_hit (slice0
                  (filter (\<lambda>meeting. contains_ci lc (meeting_title (item_fields meeting)) q \<or>
                                     contains_ci lc (meeting_description (item_fields meeting)) q)
                     ms)
                  (limit_or_default la)))"
      by (simp add: res R_def types meeting_matches_iff)
  next
    assume "''eboardMember'' \<in> set (contentTypes v)"
    then show "map_of (results v) ''eboardMembers'' =
                Some (map member_hit (slice0
                  (filter (\<lambda>member. contains_ci lc (member_name (item_fields member)) q \<or>
                                    contains_ci lc (member_position (item_fields member)) q \<or>
                                    contains_ci lc (member_description (item_fields member)) q)
                     (cur @ pst))
                  (limit_or_default la)))"
      by (simp add: res R_def types member_matches_iff del: filter_append)
  next
    assume "''hackathon'' \<in> set (contentTypes v)"
    then show "map_of (results v) ''hackathons'' =
                Some (map hackathon_hit (slice0
                  (filter (\<lambda>hackathon. contains_ci lc (hackathon_title (item_fields hackathon)) q \<or>
                                       contains_ci lc (hackathon_description (item_fields hackathon)) q)
                     hs)
                  (limit_or_default la)))"
      by (simp add: res R_def types hackathon_matches_iff)
  qed
  moreover have "limit_or_default None = 5"
    by (simp add: limit_or_default_def)
  moreover have ?nonneg
    by (simp add: slice0_nonneg)
  moreover have ?positive
    by (cases la) (simp_all add: limit_or_default_def limit_results_positive)
  moreover have ?negative
    by (cases la) (simp_all add: limit_or_default_def limit_results_negative slice0_negative)
  ultimately show ?thesis
    by (intro conjI)
qed

lemma club_search_limit_one:
  "search_content ascii_toLowerCase simple_getTime club_ctx ''hackathon'' None (Some 1) =
     Content default_scope_envelope"
  by code_simp

lemma club_search_negative_limit:
  "search_content ascii_toLowerCase simple_getTime club_ctx ''hackathon'' (Some [''blogPost''])
     (Some (- 1)) =
   Content negative_limit_envelope"
  by code_simp

lemma club_search_banners:
  "search_content ascii_toLowerCase simple_getTime club_ctx ''join''
     (Some [''parallaxBanner'', ''landingPageGraphics'', ''blogPost'']) None =
   Content banner_scope_envelope"
  by code_simp

lemma ecole_search:
  "search_content latin_toLowerCase simple_getTime ecole_ctx ecole_lower (Some [''blogPost'']) None =
     Content ecole_envelope"
  by code_simp

lemma club_matching_posts:
  "filter (post_matches ascii_toLowerCase ''hackathon'') (map (stamp ''blogPost'') club_posts) =
     [stamp ''blogPost'' (mk_post ''p1'' ''Hackathon recap'' ''What we built'' ''Ada''),
      stamp ''blogPost'' (mk_post ''p2'' ''Welcome'' ''Join the HACKATHON team'' ''Grace'')]"
  by code_simp

theorem search_matching_limit_total_witness:
  "search_content ascii_toLowerCase simple_getTime club_ctx ''hackathon'' None (Some 1) =
     Content default_scope_envelope \<and>
   kept_at_most 1 default_scope_envelope \<and>
   totalResults default_scope_envelope = 4 \<and>
   map (\<lambda>kv. length (snd kv)) (results default_scope_envelope) = [1, 1, 1, 1] \<and>
   search_content latin_toLowerCase simple_getTime ecole_ctx ecole_lower (Some [''blogPost'']) None =
     Content ecole_envelope \<and>
   filter (post_matches ascii_toLowerCase ''hackathon'') (map (stamp ''blogPost'') club_posts) =
     [stamp ''blogPost'' (mk_post ''p1'' ''Hackathon recap'' ''What we built'' ''Ada''),
      stamp ''blogPost'' (mk_post ''p2'' ''Welcome'' ''Join the HACKATHON team'' ''Grace'')] \<and>
   search_content ascii_toLowerCase simple_getTime club_ctx ''hackathon'' (Some [''blogPost''])
     (Some (- 1)) =
     Content negative_limit_envelope \<and>
   results negative_limit_envelope =
     [(''blogPosts'',
       map post_hit
         (take 1 [stamp ''blogPost'' (mk_post ''p1'' ''Hackathon recap'' ''What we built'' ''Ada''),
                  stamp ''blogPost''
                    (mk_post ''p2'' ''Welcome'' ''Join the HACKATHON team'' ''Grace'')]))] \<and>
   limit_results
     [stamp ''blogPost'' (mk_post ''p1'' ''Hackathon recap'' ''What we built'' ''Ada''),
      stamp ''blogPost'' (mk_post ''p2'' ''Welcome'' ''Join the HACKATHON team'' ''Grace'')]
     (Some (- 1)) =
     [stamp ''blogPost'' (mk_post ''p1'' ''Hackathon recap'' ''What we built'' ''Ada''),
      stamp ''blogPost'' (mk_post ''p2'' ''Welcome'' ''Join the HACKATHON team'' ''Grace'')]"
proof -
  note one = search_matching_limit_total [OF club_listings(1-5),
      where lc = ascii_toLowerCase and q = "''hackathon''" and cts = None and la = "Some 1",
      THEN conjunct2, THEN conjunct1]
  note negative = search_matching_limit_total [OF club_listings(1-5),
      where la = "Some (- 1)"
        and arr = "[stamp ''blogPost'' (mk_post ''p1'' ''Hackathon recap'' ''What we built'' ''Ada''),
                    stamp ''blogPost''
                      (mk_post ''p2'' ''Welcome'' ''Join the HACKATHON team'' ''Grace'')]",
      THEN conjunct2, THEN conjunct2, THEN conjunct2, THEN conjunct2]
  from one obtain v
    where "search_content ascii_toLowerCase simple_getTime club_ctx ''hackathon'' None (Some 1) =
             Content v"
      and "totalResults v = sum_list (map (\<lambda>kv. length (snd kv)) (results v))"
      and "0 \<le> limit_or_default (Some 1) \<longrightarrow> kept_at_most (limit_or_default (Some 1)) v"
    by blast
  then have kept: "kept_at_most 1 default_scope_envelope"
    and total: "totalResults default_scope_envelope =
                  sum_list (map (\<lambda>kv. length (snd kv)) (results default_scope_envelope))"
    by (simp_all add: club_search_limit_one limit_or_default_def)
  have lengths: "map (\<lambda>kv. length (snd kv)) (results default_scope_envelope) = [1, 1, 1, 1]"
    by (simp add: default_scope_envelope_def)
  have sibling: "limit_results
     [stamp ''blogPost'' (mk_post ''p1'' ''Hackathon recap'' ''What we built'' ''Ada''),
      stamp ''blogPost'' (mk_post ''p2'' ''Welcome'' ''Join the HACKATHON team'' ''Grace'')]
     (Some (- 1)) =
     [stamp ''blogPost'' (mk_post ''p1'' ''Hackathon recap'' ''What we built'' ''Ada''),
      stamp ''blogPost'' (mk_post ''p2'' ''Welcome'' ''Join the HACKATHON team'' ''Grace'')]"
    using negative by (simp add: limit_or_default_def)
  have dropped: "results negative_limit_envelope =
     [(''blogPosts'',
       map post_hit
         (take 1 [stamp ''blogPost'' (mk_post ''p1'' ''Hackathon recap'' ''What we built'' ''Ada''),
                  stamp ''blogPost''
                    (mk_post ''p2'' ''Welcome'' ''Join the HACKATHON team'' ''Grace'')]))]"
    by (simp add: negative_limit_envelope_def)
  from total lengths have four: "totalResults default_scope_envelope = 4"
    by simp
  from club_search_limit_one kept four lengths ecole_search club_matching_posts
    club_search_negative_limit dropped sibling
  show ?thesis
    by (intro conjI)
qed

lemma search_body_shape:
  "\<exists>hp hm he hh. \<forall>cts.
     search_body lc gt c q cts la =
       Inr \<lparr>searchQuery = q,
            contentTypes = typesToSearch_of cts,
            totalResults =
              (if ''blogPost'' \<in> set (typesToSearch_of cts) then length hp else 0) +
              (if ''meeting'' \<in> set (typesToSearch_of cts) then length hm else 0) +
              (if ''eboardMember'' \<in> set (typesToSearch_of cts) then length he else 0) +
              (if ''hackathon'' \<in> set (typesToSearch_of cts) then length hh else 0),
            results =
              (if ''blogPost'' \<in> set (typesToSearch_of cts)
               then [(''blogPosts'', map post_hit hp)] else []) @
              (if ''meeting'' \<in> set (typesToSearch_of cts)
               then [(''meetings'', map meeting_hit hm)] else []) @
              (if ''eboardMember'' \<in> set (typesToSearch_of cts)
               then [(''eboardMembers'', map member_hit he)] else []) @
              (if ''hackathon'' \<in> set (typesToSearch_of cts)
               then [(''hackathons'', map hackathon_hit hh)] else [])\<rparr>"
proof -
  obtain posts ms cur pst hs
    where listings: "getAllPosts c = Inr posts" "getAllMeetings gt c = Inr ms"
      "getCurrentEboardMembers c = Inr cur" "getPastEboardMembers c = Inr pst"
      "getAllHackathons c = Inr hs"
    using list_resolvers_total(1) [of c] list_resolvers_total(2) [of gt c]
      list_resolvers_total(5) [of c] list_resolvers_total(6) [of c]
      list_resolvers_total(7) [of c]
    by blast
  show ?thesis
    apply (rule exI [of _ "slice0 (filter (post_matches lc q) posts) (limit_or_default la)"])
    apply (rule exI [of _ "slice0 (filter (meeting_matches lc q) ms) (limit_or_default la)"])
    apply (rule exI [of _ "slice0 (filter (member_matches lc q) (cur @ pst)) (limit_or_default la)"])
    apply (rule exI [of _ "slice0 (filter (hackathon_matches lc q) hs) (limit_or_default la)"])
    apply (rule allI)
    apply (subst search_body_resolved [OF listings refl])
    apply simp
    done
qed

lemma default_types_members:
  "''blogPost'' \<in> set default_typesToSearch"
  "''meeting'' \<in> set default_typesToSearch"
  "''eboardMember'' \<in> set default_typesToSearch"
  "''hackathon'' \<in> set default_typesToSearch"
  by (simp_all add: default_typesToSearch_def)

text \<open>
  C6, as amended. Without an explicit list of types, the envelope's content-type list is
  the default list of all six type names, and results are produced under the four keys
  of blog posts, meetings, eboard members and hackathons. With an explicit list, the
  envelope's content-type list is that list as given.
\<close>

theorem search_default_scope:
  "(\<exists>v. search_content lc gt c q None la = Content v \<and>
        contentTypes v =
          [''blogPost'', ''meeting'', ''eboardMember'', ''hackathon'', ''landingPageGraphics'',
           ''parallaxBanner''] \<and>
        map fst (results v) = [''blogPosts'', ''meetings'', ''eboardMembers'', ''hackathons'']) \<and>
   (\<exists>v. search_content lc gt c q (Some ts) la = Content v \<and> contentTypes v = ts)"
proof -
  from search_body_shape [of lc gt c q la]
  obtain hp hm he hh where shape: "\<And>cts.
     search_body lc gt c q cts la =
       Inr \<lparr>searchQuery = q,
            contentTypes = typesToSearch_of cts,
            totalResults =
              (if ''blogPost'' \<in> set (typesToSearch_of cts) then length hp else 0) +
              (if ''meeting'' \<in> set (typesToSearch_of cts) then length hm else 0) +
              (if ''eboardMember'' \<in> set (typesToSearch_of cts) then length he else 0) +
              (if ''hackathon'' \<in> set (typesToSearch_of cts) then length hh else 0),
            results =
              (if ''blogPost'' \<in> set (typesToSearch_of cts)
               then [(''blogPosts'', map post_hit hp)] else []) @
              (if ''meeting'' \<in> set (typesToSearch_of cts)
               then [(''meetings'', map meeting_hit hm)] else []) @
              (if ''eboardMember'' \<in> set (typesToSearch_of cts)
               then [(''eboardMembers'', map member_hit he)] else []) @
              (if ''hackathon'' \<in> set (typesToSearch_of cts)
               then [(''hackathons'', map hackathon_hit hh)] else [])\<rparr>"
    by blast
  have none: "typesToSearch_of None = default_typesToSearch"
    and some: "typesToSearch_of (Some ts) = ts"
    by (simp_all add: typesToSearch_of_def)
  have "\<exists>v. search_content lc gt c q None la = Content v \<and>
        contentTypes v =
          [''blogPost'', ''meeting'', ''eboardMember'', ''hackathon'', ''landingPageGraphics'',
           ''parallaxBanner''] \<and>
        map fst (results v) = [''blogPosts'', ''meetings'', ''eboardMembers'', ''hackathons'']"
    unfolding search_content_def shape none
    by (simp add: default_types_members) (simp add: default_typesToSearch_def)
  moreover have "\<exists>v. search_content lc gt c q (Some ts) la = Content v \<and> contentTypes v = ts"
    unfolding search_content_def shape some by simp
  ultimately show ?thesis
    by (rule conjI)
qed

theorem search_default_scope_witness:
  "search_content ascii_toLowerCase simple_getTime club_ctx ''hackathon'' None (Some 1) = Content default_scope_envelope \<and>
   contentTypes default_scope_envelope =
     [''blogPost'', ''meeting'', ''eboardMember'', ''hackathon'', ''landingPageGraphics'',
      ''parallaxBanner''] \<and>
   map fst (results default_scope_envelope) =
     [''blogPosts'', ''meetings'', ''eboardMembers'', ''hackathons'']"
  using search_default_scope [of ascii_toLowerCase simple_getTime club_ctx "''hackathon''" "Some 1"]
    club_search_limit_one
  by auto

text \<open>
  C6 as stated fails: the default search reports six content types, two of which
  (\<open>landingPageGraphics\<close> and \<open>parallaxBanner\<close>) are never searched and have no result key.
\<close>

theorem default_scope_counterexample:
  "search_content ascii_toLowerCase simple_getTime club_ctx ''hackathon'' None (Some 1) = Content default_scope_envelope \<and>
   contentTypes default_scope_envelope \<noteq> [''blogPost'', ''meeting'', ''eboardMember'', ''hackathon''] \<and>
   ''landingPageGraphics'' \<in> set (contentTypes default_scope_envelope) \<and>
   ''parallaxBanner'' \<in> set (contentTypes default_scope_envelope) \<and>
   map fst (results default_scope_envelope) =
     [''blogPosts'', ''meetings'', ''eboardMembers'', ''hackathons'']"
  by (simp add: club_search_limit_one default_scope_envelope_def)

lemma hit_types:
  "map_of (post_hit x) ''type'' = Some (JString ''blogPost'')"
  "map_of (meeting_hit y) ''type'' = Some (JString ''meeting'')"
  "map_of (member_hit z) ''type'' = Some (JString ''eboardMember'')"
  "map_of (hackathon_hit w) ''type'' = Some (JString ''hackathon'')"
  by (simp_all add: post_hit_def meeting_hit_def member_hit_def hackathon_hit_def)

lemma filtered_types_members:
  "''blogPost'' \<in> set (filter (\<lambda>t. t \<noteq> ''landingPageGraphics'' \<and> t \<noteq> ''parallaxBanner'') ts)
     \<longleftrightarrow> ''blogPost'' \<in> set ts"
  "''meeting'' \<in> set (filter (\<lambda>t. t \<noteq> ''landingPageGraphics'' \<and> t \<noteq> ''parallaxBanner'') ts)
     \<longleftrightarrow> ''meeting'' \<in> set ts"
  "''eboardMember'' \<in> set (filter (\<lambda>t. t \<noteq> ''landingPageGraphics'' \<and> t \<noteq> ''parallaxBanner'') ts)
     \<longleftrightarrow> ''eboardMember'' \<in> set ts"
  "''hackathon'' \<in> set (filter (\<lambda>t. t \<noteq> ''landingPageGraphics'' \<and> t \<noteq> ''parallaxBanner'') ts)
     \<longleftrightarrow> ''hackathon'' \<in> set ts"
  by simp_all

text \<open>
  C10. Whatever list of types is requested, the search produces result keys only among
  \<open>blogPosts\<close>, \<open>meetings\<close>, \<open>eboardMembers\<close> and \<open>hackathons\<close>, every hit is of one of
  those four types, and the total counts just these results. Asking for
  \<open>landingPageGraphics\<close> or \<open>parallaxBanner\<close> changes nothing but the echoed list: the
  results and the total are those of the request without them.
\<close>

theorem search_never_returns_graphics_or_banners:
  "\<exists>v. search_content lc gt c q cts la = Content v \<and>
       set (map fst (results v)) \<subseteq> {''blogPosts'', ''meetings'', ''eboardMembers'', ''hackathons''} \<and>
       (\<forall>kv\<in>set (results v). \<forall>h\<in>set (snd kv).
          map_of h ''type'' \<in> {Some (JString ''blogPost''), Some (JString ''meeting''),
                               Some (JString ''eboardMember''), Some (JString ''hackathon'')}) \<and>
       totalResults v = sum_list (map (\<lambda>kv. length (snd kv)) (results v)) \<and>
       (\<forall>ts. cts = Some ts \<longrightarrow>
          search_content lc gt c q
            (Some (filter (\<lambda>t. t \<noteq> ''landingPageGraphics'' \<and> t \<noteq> ''parallaxBanner'') ts)) la =
          Content (v\<lparr>contentTypes :=
                      filter (\<lambda>t. t \<noteq> ''landingPageGraphics'' \<and> t \<noteq> ''parallaxBanner'') ts\<rparr>))"
proof -
  from search_body_shape [of lc gt c q la]
  obtain hp hm he hh where shape: "\<And>cts.
     search_body lc gt c q cts la =
       Inr \<lparr>searchQuery = q,
            contentTypes = typesToSearch_of cts,
            totalResults =
              (if ''blogPost'' \<in> set (typesToSearch_of cts) then length hp else 0) +
              (if ''meeting'' \<in> set (typesToSearch_of cts) then length hm else 0) +
              (if ''eboardMember'' \<in> set (typesToSearch_of cts) then length he else 0) +
              (if ''hackathon'' \<in> set (typesToSearch_of cts) then length hh else 0),
            results =
              (if ''blogPost'' \<in> set (typesToSearch_of cts)
               then [(''blogPosts'', map post_hit hp)] else []) @
              (if ''meeting'' \<in> set (typesToSearch_of cts)
               then [(''meetings'', map meeting_hit hm)] else []) @
              (if ''eboardMember'' \<in> set (typesToSearch_of cts)
               then [(''eboardMembers'', map member_hit he)] else []) @
              (if ''hackathon'' \<in> set (typesToSearch_of cts)
               then [(''hackathons'', map hackathon_hit hh)] else [])\<rparr>"
    by blast
  define v where "v =
       \<lparr>searchQuery = q,
            contentTypes = typesToSearch_of cts,
            totalResults =
              (if ''blogPost'' \<in> set (typesToSearch_of cts) then length hp else 0) +
              (if ''meeting'' \<in> set (typesToSearch_of cts) then length hm else 0) +
              (if ''eboardMember'' \<in> set (typesToSearch_of cts) then length he else 0) +
              (if ''hackathon'' \<in> set (typesToSearch_of cts) then length hh else 0),
            results =
              (if ''blogPost'' \<in> set (typesToSearch_of cts)
               then [(''blogPosts'', map post_hit hp)] else []) @
              (if ''meeting'' \<in> set (typesToSearch_of cts)
               then [(''meetings'', map meeting_hit hm)] else []) @
              (if ''eboardMember'' \<in> set (typesToSearch_of cts)
               then [(''eboardMembers'', map member_hit he)] else []) @
              (if ''hackathon'' \<in> set (typesToSearch_of cts)
               then [(''hackathons'', map hackathon_hit hh)] else [])\<rparr>"
  have content: "search_content lc gt c q cts la = Content v"
    by (simp add: search_content_def shape v_def)
  have keys: "set (map fst (results v))
                \<subseteq> {''blogPosts'', ''meetings'', ''eboardMembers'', ''hackathons''}"
    by (auto simp: v_def)
  have types: "\<forall>kv\<in>set (results v). \<forall>h\<in>set (snd kv).
          map_of h ''type'' \<in> {Some (JString ''blogPost''), Some (JString ''meeting''),
                               Some (JString ''eboardMember''), Some (JString ''hackathon'')}"
    by (auto simp: v_def hit_types split: if_splits)
  have total: "totalResults v = sum_list (map (\<lambda>kv. length (snd kv)) (results v))"
    by (simp add: v_def)
  have removed: "\<forall>ts. cts = Some ts \<longrightarrow>
          search_content lc gt c q
            (Some (filter (\<lambda>t. t \<noteq> ''landingPageGraphics'' \<and> t \<noteq> ''parallaxBanner'') ts)) la =
          Content (v\<lparr>contentTypes :=
                      filter (\<lambda>t. t \<noteq> ''landingPageGraphics'' \<and> t \<noteq> ''parallaxBanner'') ts\<rparr>)"
  proof (intro allI impI)
    fix ts
    assume "cts = Some ts"
    then have cts: "typesToSearch_of cts = ts"
      by (simp add: typesToSearch_of_def)
    have filtered: "typesToSearch_of
        (Some (filter (\<lambda>t. t \<noteq> ''landingPageGraphics'' \<and> t \<noteq> ''parallaxBanner'') ts)) =
        filter (\<lambda>t. t \<noteq> ''landingPageGraphics'' \<and> t \<noteq> ''parallaxBanner'') ts"
      by (simp add: typesToSearch_of_def)
    show "search_content lc gt c q
            (Some (filter (\<lambda>t. t \<noteq> ''landingPageGraphics'' \<and> t \<noteq> ''parallaxBanner'') ts)) la =
          Content (v\<lparr>contentTypes :=
                      filter (\<lambda>t. t \<noteq> ''landingPageGraphics'' \<and> t \<noteq> ''parallaxBanner'') ts\<rparr>)"
      unfolding search_content_def shape filtered filtered_types_members v_def cts
      by simp
  qed
  from content keys types total removed show ?thesis
    by blast
qed

theorem search_never_returns_graphics_or_banners_witness:
  "search_content ascii_toLowerCase simple_getTime club_ctx ''join''
     (Some [''parallaxBanner'', ''landingPageGraphics'', ''blogPost'']) None =
   Content banner_scope_envelope \<and>
   map fst (results banner_scope_envelope) = [''blogPosts''] \<and>
   totalResults banner_scope_envelope = 1 \<and>
   search_content ascii_toLowerCase simple_getTime club_ctx ''join'' (Some [''blogPost'']) None =
   Content (banner_scope_envelope\<lparr>contentTypes := [''blogPost'']\<rparr>)"
  using search_never_returns_graphics_or_banners [of ascii_toLowerCase simple_getTime club_ctx "''join''"
      "Some [''parallaxBanner'', ''landingPageGraphics'', ''blogPost'']" None]
    club_search_banners
  by (simp add: banner_scope_envelope_def)

end
